theory Spec2Isabelle
  imports Complex_Main "HOL-Library.Sublist"
begin

section \<open>Enumerations (enums.py)\<close>

text \<open>
  \<^verbatim>\<open>class EnvironmentName(str, Enum)\<close>: three members, each carrying its string value
  (the member \<^verbatim>\<open>PROD\<close> is written \<open>PROD_ENV\<close>, since \<open>PROD\<close> is reserved syntax).
  Validation of a plain string against the enumeration looks the member up by value.
\<close>

datatype EnvironmentName = DEV | STAGING | PROD_ENV

fun EnvironmentName_value :: "EnvironmentName \<Rightarrow> string" where
  "EnvironmentName_value DEV = ''dev''"
| "EnvironmentName_value STAGING = ''staging''"
| "EnvironmentName_value PROD_ENV = ''prod''"

definition EnvironmentName_of :: "string \<Rightarrow> EnvironmentName option" where
  "EnvironmentName_of s =
     (if s = ''dev'' then Some DEV
      else if s = ''staging'' then Some STAGING
      else if s = ''prod'' then Some PROD_ENV
      else None)"

datatype AwsRegion =
  EU_WEST_1 | EU_WEST_2 | EU_WEST_3 | EU_CENTRAL_1 | US_EAST_1 | US_EAST_2 | US_WEST_1 | US_WEST_2

fun AwsRegion_value :: "AwsRegion \<Rightarrow> string" where
  "AwsRegion_value EU_WEST_1 = ''eu-west-1''"
| "AwsRegion_value EU_WEST_2 = ''eu-west-2''"
| "AwsRegion_value EU_WEST_3 = ''eu-west-3''"
| "AwsRegion_value EU_CENTRAL_1 = ''eu-central-1''"
| "AwsRegion_value US_EAST_1 = ''us-east-1''"
| "AwsRegion_value US_EAST_2 = ''us-east-2''"
| "AwsRegion_value US_WEST_1 = ''us-west-1''"
| "AwsRegion_value US_WEST_2 = ''us-west-2''"

definition AwsRegion_of :: "string \<Rightarrow> AwsRegion option" where
  "AwsRegion_of s =
     (if s = ''eu-west-1'' then Some EU_WEST_1
      else if s = ''eu-west-2'' then Some EU_WEST_2
      else if s = ''eu-west-3'' then Some EU_WEST_3
      else if s = ''eu-central-1'' then Some EU_CENTRAL_1
      else if s = ''us-east-1'' then Some US_EAST_1
      else if s = ''us-east-2'' then Some US_EAST_2
      else if s = ''us-west-1'' then Some US_WEST_1
      else if s = ''us-west-2'' then Some US_WEST_2
      else None)"

text \<open>\<^verbatim>\<open>class EcsTaskCpu(int, Enum)\<close> and \<^verbatim>\<open>class EcsTaskMemory(int, Enum)\<close>.\<close>

datatype EcsTaskCpu = CPU_256 | CPU_512 | CPU_1024 | CPU_2048 | CPU_4096

fun EcsTaskCpu_value :: "EcsTaskCpu \<Rightarrow> int" where
  "EcsTaskCpu_value CPU_256 = 256"
| "EcsTaskCpu_value CPU_512 = 512"
| "EcsTaskCpu_value CPU_1024 = 1024"
| "EcsTaskCpu_value CPU_2048 = 2048"
| "EcsTaskCpu_value CPU_4096 = 4096"

datatype EcsTaskMemory =
  MEM_512 | MEM_1024 | MEM_2048 | MEM_3072 | MEM_4096 | MEM_5120 | MEM_6144 | MEM_7168
  | MEM_8192 | MEM_16384 | MEM_30720

fun EcsTaskMemory_value :: "EcsTaskMemory \<Rightarrow> int" where
  "EcsTaskMemory_value MEM_512 = 512"
| "EcsTaskMemory_value MEM_1024 = 1024"
| "EcsTaskMemory_value MEM_2048 = 2048"
| "EcsTaskMemory_value MEM_3072 = 3072"
| "EcsTaskMemory_value MEM_4096 = 4096"
| "EcsTaskMemory_value MEM_5120 = 5120"
| "EcsTaskMemory_value MEM_6144 = 6144"
| "EcsTaskMemory_value MEM_7168 = 7168"
| "EcsTaskMemory_value MEM_8192 = 8192"
| "EcsTaskMemory_value MEM_16384 = 16384"
| "EcsTaskMemory_value MEM_30720 = 30720"

section \<open>Python values used by the configuration model\<close>

subsection \<open>Floats\<close>

text \<open>
  A Python float is a finite binary fraction, an infinity or NaN (a YAML document can
  spell all of them). The configuration code only compares floats, and float comparison
  is exact, so a finite float is modelled by the rational number it denotes. A
  comparison with NaN is false.
\<close>

datatype pyfloat = Finite rat | PosInf | NegInf | NaN

fun float_lt :: "pyfloat \<Rightarrow> pyfloat \<Rightarrow> bool" where
  "float_lt NaN _ = False"
| "float_lt _ NaN = False"
| "float_lt (Finite a) (Finite b) = (a < b)"
| "float_lt (Finite a) PosInf = True"
| "float_lt (Finite a) NegInf = False"
| "float_lt PosInf _ = False"
| "float_lt NegInf (Finite b) = True"
| "float_lt NegInf PosInf = True"
| "float_lt NegInf NegInf = False"

fun float_ge :: "pyfloat \<Rightarrow> pyfloat \<Rightarrow> bool" where
  "float_ge NaN _ = False"
| "float_ge _ NaN = False"
| "float_ge a b = (\<not> float_lt a b)"

subsection \<open>Formatting\<close>

text \<open>\<^verbatim>\<open>str(n)\<close> for an int: decimal digits, with a leading minus sign when negative.\<close>

definition digit_char :: "nat \<Rightarrow> char" where
  "digit_char d = ''0123456789'' ! d"

fun str_nat :: "nat \<Rightarrow> string" where
  "str_nat n = (if n < 10 then [digit_char n] else str_nat (n div 10) @ [digit_char (n mod 10)])"

definition str_int :: "int \<Rightarrow> string" where
  "str_int i = (if i < 0 then ''-'' @ str_nat (nat (- i)) else str_nat (nat i))"

text \<open>
  An f-string is kept as the list of its parts. The text of a float replacement field is
  the float's \<^verbatim>\<open>repr\<close> (shortest round-trip decimal), which the model takes as a
  parameter of the rendering.
\<close>

datatype fpart = Lit string | IntArg int | FloatArg pyfloat

type_synonym fstring = "fpart list"

fun render_part :: "(pyfloat \<Rightarrow> string) \<Rightarrow> fpart \<Rightarrow> string" where
  "render_part fr (Lit s) = s"
| "render_part fr (IntArg n) = str_int n"
| "render_part fr (FloatArg x) = fr x"

definition render :: "(pyfloat \<Rightarrow> string) \<Rightarrow> fstring \<Rightarrow> string" where
  "render fr parts = concat (map (render_part fr) parts)"

section \<open>BaseConfig (base\_config.py)\<close>

text \<open>
  The accessors of \<^verbatim>\<open>BaseConfig\<close> read only the two fields \<^verbatim>\<open>env_name\<close> and
  \<^verbatim>\<open>project_name\<close>; \<^verbatim>\<open>InfrastructureConfig\<close> extends this record below.
\<close>

record BaseConfig =
  env_name :: EnvironmentName
  project_name :: string

definition env_name_str :: "'a BaseConfig_scheme \<Rightarrow> string" where
  "env_name_str self = EnvironmentName_value (env_name self)"

definition prefix :: "'a BaseConfig_scheme \<Rightarrow> string \<Rightarrow> string" where
  "prefix self base = project_name self @ ''-'' @ env_name_str self @ ''-'' @ base"

text \<open>A dict literal, as the association list of its entries in insertion order.\<close>

definition tags :: "'a BaseConfig_scheme \<Rightarrow> (string \<times> string) list" where
  "tags self =
     [(''EnvName'', env_name_str self),
      (''ProjectName'', project_name self),
      (''ManagedBy'', ''CDK'')]"

section \<open>Field patterns\<close>

text \<open>
  The \<^verbatim>\<open>pattern\<close> constraints of the schema are regular expressions of one shape: between
  the anchors \<^verbatim>\<open>^\<close> and \<^verbatim>\<open>$\<close>, a sequence of literal texts, character classes
  repeated one or more times (\<^verbatim>\<open>[...]+\<close>) and character classes repeated a fixed number
  of times (\<^verbatim>\<open>\d{12}\<close>). A pattern is kept as that sequence, and \<open>matches\<close> decides
  whether the whole string is in its language, trying every split. The end anchor matches
  at the end of the text only. Strings are \<open>char\<close> lists (code points below 256), where
  the only decimal digits are \<^verbatim>\<open>0\<close> to \<^verbatim>\<open>9\<close>.
\<close>

datatype citem = Range char char | Single char | Digit

fun in_item :: "citem \<Rightarrow> char \<Rightarrow> bool" where
  "in_item (Range lo hi) c = ((of_char lo :: nat) \<le> of_char c \<and> (of_char c :: nat) \<le> of_char hi)"
| "in_item (Single d) c = (c = d)"
| "in_item Digit c = ((48 :: nat) \<le> of_char c \<and> (of_char c :: nat) \<le> 57)"

fun in_class :: "citem list \<Rightarrow> char \<Rightarrow> bool" where
  "in_class [] c = False"
| "in_class (i # cls) c = (in_item i c \<or> in_class cls c)"

datatype ritem = Literal string | OneOrMore "citem list" | Exactly nat "citem list"

fun matches :: "ritem list \<Rightarrow> string \<Rightarrow> bool" where
  "matches [] s = (s = [])"
| "matches (Literal l # r) s = (take (length l) s = l \<and> matches r (drop (length l) s))"
| "matches (OneOrMore cls # r) [] = False"
| "matches (OneOrMore cls # r) (c # cs) =
     (in_class cls c \<and> (matches (OneOrMore cls # r) cs \<or> matches r cs))"
| "matches (Exactly 0 cls # r) s = matches r s"
| "matches (Exactly (Suc n) cls # r) [] = False"
| "matches (Exactly (Suc n) cls # r) (c # cs) = (in_class cls c \<and> matches (Exactly n cls # r) cs)"

text \<open>\<^verbatim>\<open>^arn:aws:acm:[a-z0-9-]+:\d{12}:certificate/[a-zA-Z0-9-]+$\<close>\<close>

definition acm_certificate_pattern :: "ritem list" where
  "acm_certificate_pattern =
     [Literal ''arn:aws:acm:'',
      OneOrMore [Range CHR ''a'' CHR ''z'', Range CHR ''0'' CHR ''9'', Single CHR ''-''],
      Literal '':'',
      Exactly 12 [Digit],
      Literal '':certificate/'',
      OneOrMore [Range CHR ''a'' CHR ''z'', Range CHR ''A'' CHR ''Z'', Range CHR ''0'' CHR ''9'',
                 Single CHR ''-'']]"

text \<open>\<^verbatim>\<open>^arn:aws:codeconnections:[a-z0-9-]+:\d{12}:connection/[a-zA-Z0-9-]+$\<close>\<close>

definition codeconnections_pattern :: "ritem list" where
  "codeconnections_pattern =
     [Literal ''arn:aws:codeconnections:'',
      OneOrMore [Range CHR ''a'' CHR ''z'', Range CHR ''0'' CHR ''9'', Single CHR ''-''],
      Literal '':'',
      Exactly 12 [Digit],
      Literal '':connection/'',
      OneOrMore [Range CHR ''a'' CHR ''z'', Range CHR ''A'' CHR ''Z'', Range CHR ''0'' CHR ''9'',
                 Single CHR ''-'']]"

section \<open>Errors and field validation\<close>

text \<open>
  Every raise of the source is a value. A validation error names the model class and lists
  its error details: one per rejected field, in field order, or the single
  \<^verbatim>\<open>ValueError\<close> of the class's validator, which runs only after every field passed.
  \<open>OSError n\<close> is an operating-system error with error number \<open>n\<close> that has no class of its
  own, and \<open>EmbeddedNullError\<close> is the \<^verbatim>\<open>ValueError\<close> that opening a path with a NUL
  character raises.
\<close>

datatype error_detail =
    MissingField string
  | EnumMismatch string
  | GreaterThanEqual string
  | StringPatternMismatch string
  | ValueError fstring

datatype py_error =
    FileNotFoundError string
  | NotADirectoryError string
  | IsADirectoryError string
  | PermissionError string
  | OSError nat
  | EmbeddedNullError
  | UnicodeDecodeError
  | YAMLError
  | KeyError string
  | TypeError
  | AttributeError string string
  | ValidationError string "error_detail list"

text \<open>
  A keyword argument is \<open>None\<close> when the caller's mapping has no such key and \<open>Some v\<close>
  when it has. The values are taken at the types of the schema's annotations (a number
  for a float field, text for a string field); what the validation library does with a
  value of another type is outside this model. A default is used as it is: no constraint
  is checked on it. A lower bound accepts a value that is greater than or equal to it, so a
  float bound rejects NaN.
\<close>

definition field_or :: "'a \<Rightarrow> 'a option \<Rightarrow> 'a" where
  "field_or dflt v = (case v of None \<Rightarrow> dflt | Some x \<Rightarrow> x)"

definition required_field :: "string \<Rightarrow> 'a option \<Rightarrow> error_detail + 'a" where
  "required_field name v = (case v of None \<Rightarrow> Inl (MissingField name) | Some x \<Rightarrow> Inr x)"

definition pattern_field :: "string \<Rightarrow> ritem list \<Rightarrow> string \<Rightarrow> string option \<Rightarrow> error_detail + string" where
  "pattern_field name pattern dflt v =
     (case v of
        None \<Rightarrow> Inr dflt
      | Some s \<Rightarrow> if matches pattern s then Inr s else Inl (StringPatternMismatch name))"

definition ge_int_field :: "string \<Rightarrow> int \<Rightarrow> int \<Rightarrow> int option \<Rightarrow> error_detail + int" where
  "ge_int_field name bound dflt v =
     (case v of
        None \<Rightarrow> Inr dflt
      | Some n \<Rightarrow> if n < bound then Inl (GreaterThanEqual name) else Inr n)"

definition ge_float_field :: "string \<Rightarrow> pyfloat \<Rightarrow> pyfloat \<Rightarrow> pyfloat option \<Rightarrow> error_detail + pyfloat" where
  "ge_float_field name bound dflt v =
     (case v of
        None \<Rightarrow> Inr dflt
      | Some x \<Rightarrow> if float_ge x bound then Inr x else Inl (GreaterThanEqual name))"

definition errors_of :: "error_detail + 'a \<Rightarrow> error_detail list" where
  "errors_of r = (case r of Inl e \<Rightarrow> [e] | Inr _ \<Rightarrow> [])"

section \<open>Sub-configurations (base\_config.py)\<close>

subsection \<open>AwsConfig\<close>

record AwsConfig =
  account :: string
  region :: AwsRegion

record AwsConfig_kwargs =
  kw_account :: "string option"
  kw_region :: "string option"

definition region_field :: "string option \<Rightarrow> error_detail + AwsRegion" where
  "region_field v =
     (case v of
        None \<Rightarrow> Inl (MissingField ''region'')
      | Some s \<Rightarrow> (case AwsRegion_of s of None \<Rightarrow> Inl (EnumMismatch ''region'') | Some r \<Rightarrow> Inr r))"

definition AwsConfig_init :: "AwsConfig_kwargs \<Rightarrow> py_error + AwsConfig" where
  "AwsConfig_init kw =
     (let a = required_field ''account'' (kw_account kw);
          r = region_field (kw_region kw)
      in case (a, r) of
           (Inr a', Inr r') \<Rightarrow> Inr \<lparr>account = a', region = r'\<rparr>
         | _ \<Rightarrow> Inl (ValidationError ''AwsConfig'' (errors_of a @ errors_of r)))"

definition region_str :: "AwsConfig \<Rightarrow> string" where
  "region_str self = AwsRegion_value (region self)"

subsection \<open>VpcConfig\<close>

record VpcConfig =
  cidr :: string
  max_azs :: int
  reserved_azs :: int
  nat_gateways :: int
  automatic_subnet_creation :: bool

record VpcConfig_kwargs =
  kw_cidr :: "string option"
  kw_max_azs :: "int option"
  kw_reserved_azs :: "int option"
  kw_nat_gateways :: "int option"
  kw_automatic_subnet_creation :: "bool option"

definition VpcConfig_init :: "VpcConfig_kwargs \<Rightarrow> py_error + VpcConfig" where
  "VpcConfig_init kw =
     Inr \<lparr>cidr = field_or ''10.0.0.0/16'' (kw_cidr kw),
          max_azs = field_or 3 (kw_max_azs kw),
          reserved_azs = field_or 3 (kw_reserved_azs kw),
          nat_gateways = field_or 1 (kw_nat_gateways kw),
          automatic_subnet_creation = field_or True (kw_automatic_subnet_creation kw)\<rparr>"

subsection \<open>DatabaseConfig\<close>

record DatabaseConfig =
  snapshot_identifier :: "string option"
  backup_retention :: int
  instance_reader :: bool
  serverless_v2_min_capacity :: pyfloat
  serverless_v2_max_capacity :: pyfloat
  master_username :: string

record DatabaseConfig_kwargs =
  kw_snapshot_identifier :: "string option option"
  kw_backup_retention :: "int option"
  kw_instance_reader :: "bool option"
  kw_serverless_v2_min_capacity :: "pyfloat option"
  kw_serverless_v2_max_capacity :: "pyfloat option"
  kw_master_username :: "string option"

text \<open>The validator returns the instance, or the message of the \<^verbatim>\<open>ValueError\<close> it raises.\<close>

definition validate_capacity :: "DatabaseConfig \<Rightarrow> fstring + DatabaseConfig" where
  "validate_capacity self =
     (if float_ge (serverless_v2_min_capacity self) (serverless_v2_max_capacity self)
      then Inl [Lit ''serverless_v2_min_capacity ('',
                FloatArg (serverless_v2_min_capacity self),
                Lit '') '',
                Lit ''must be less than serverless_v2_max_capacity ('',
                FloatArg (serverless_v2_max_capacity self),
                Lit '')'']
      else Inr self)"

definition DatabaseConfig_init :: "DatabaseConfig_kwargs \<Rightarrow> py_error + DatabaseConfig" where
  "DatabaseConfig_init kw =
     (case ge_float_field ''serverless_v2_min_capacity'' (Finite (1 / 2)) (Finite (1 / 2))
             (kw_serverless_v2_min_capacity kw) of
        Inl e \<Rightarrow> Inl (ValidationError ''DatabaseConfig'' [e])
      | Inr mn \<Rightarrow>
          (case validate_capacity
                  \<lparr>snapshot_identifier = field_or None (kw_snapshot_identifier kw),
                   backup_retention = field_or 2 (kw_backup_retention kw),
                   instance_reader = field_or False (kw_instance_reader kw),
                   serverless_v2_min_capacity = mn,
                   serverless_v2_max_capacity = field_or (Finite 2) (kw_serverless_v2_max_capacity kw),
                   master_username = field_or ''postgres'' (kw_master_username kw)\<rparr> of
             Inl msg \<Rightarrow> Inl (ValidationError ''DatabaseConfig'' [ValueError msg])
           | Inr self \<Rightarrow> Inr self))"

subsection \<open>BackendConfig\<close>

record BackendConfig =
  task_cpu :: string
  task_memory :: string
  desired_count :: int
  certificate_arn :: string
  container_env_vars :: "(string \<times> string) list"
  auto_scaling_min_capacity :: int
  auto_scaling_max_capacity :: int
  ecr_repository_name :: string
  ecr_image_tag :: string

record BackendConfig_kwargs =
  kw_task_cpu :: "string option"
  kw_task_memory :: "string option"
  kw_desired_count :: "int option"
  kw_certificate_arn :: "string option"
  kw_container_env_vars :: "(string \<times> string) list option"
  kw_auto_scaling_min_capacity :: "int option"
  kw_auto_scaling_max_capacity :: "int option"
  kw_ecr_repository_name :: "string option"
  kw_ecr_image_tag :: "string option"

text \<open>
  Reading the attribute \<^verbatim>\<open>value\<close> of an object: a member of an enumeration has it, a
  plain string has not.
\<close>

datatype pyobj = StrObj string | CpuObj EcsTaskCpu | MemoryObj EcsTaskMemory

fun getattr_value :: "pyobj \<Rightarrow> py_error + int" where
  "getattr_value (StrObj s) = Inl (AttributeError ''str'' ''value'')"
| "getattr_value (CpuObj c) = Inr (EcsTaskCpu_value c)"
| "getattr_value (MemoryObj m) = Inr (EcsTaskMemory_value m)"

definition task_cpu_int :: "BackendConfig \<Rightarrow> py_error + int" where
  "task_cpu_int self = getattr_value (StrObj (task_cpu self))"

definition task_memory_int :: "BackendConfig \<Rightarrow> py_error + int" where
  "task_memory_int self = getattr_value (StrObj (task_memory self))"

definition validate_auto_scaling :: "BackendConfig \<Rightarrow> fstring + BackendConfig" where
  "validate_auto_scaling self =
     (if auto_scaling_min_capacity self \<ge> auto_scaling_max_capacity self
      then Inl [Lit ''auto_scaling_min_capacity ('',
                IntArg (auto_scaling_min_capacity self),
                Lit '') '',
                Lit ''must be less than auto_scaling_max_capacity ('',
                IntArg (auto_scaling_max_capacity self),
                Lit '')'']
      else Inr self)"

definition BackendConfig_init :: "BackendConfig_kwargs \<Rightarrow> py_error + BackendConfig" where
  "BackendConfig_init kw =
     (let arn = pattern_field ''certificate_arn'' acm_certificate_pattern
                  ''arn:aws:acm:eu-west-1:532673134317:certificate/905d0d16-87e8-4e89-a88c-b6053f472e81''
                  (kw_certificate_arn kw);
          mn = ge_int_field ''auto_scaling_min_capacity'' 1 1 (kw_auto_scaling_min_capacity kw)
      in case (arn, mn) of
           (Inr arn', Inr mn') \<Rightarrow>
             (case validate_auto_scaling
                     \<lparr>task_cpu = field_or ''500m'' (kw_task_cpu kw),
                      task_memory = field_or ''512Mi'' (kw_task_memory kw),
                      desired_count = field_or 1 (kw_desired_count kw),
                      certificate_arn = arn',
                      container_env_vars = field_or [] (kw_container_env_vars kw),
                      auto_scaling_min_capacity = mn',
                      auto_scaling_max_capacity = field_or 5 (kw_auto_scaling_max_capacity kw),
                      ecr_repository_name = field_or ''services/ecs/fastapi_app'' (kw_ecr_repository_name kw),
                      ecr_image_tag = field_or ''lastest'' (kw_ecr_image_tag kw)\<rparr> of
                Inl msg \<Rightarrow> Inl (ValidationError ''BackendConfig'' [ValueError msg])
              | Inr self \<Rightarrow> Inr self)
         | _ \<Rightarrow> Inl (ValidationError ''BackendConfig'' (errors_of arn @ errors_of mn)))"

subsection \<open>FrontendConfig\<close>

record FrontendConfig =
  domain_name :: string
  certificate_arn :: string
  certificate_provider :: string

record FrontendConfig_kwargs =
  kw_domain_name :: "string option"
  kw_certificate_arn :: "string option"
  kw_certificate_provider :: "string option"

definition FrontendConfig_init :: "FrontendConfig_kwargs \<Rightarrow> py_error + FrontendConfig" where
  "FrontendConfig_init kw =
     (case pattern_field ''certificate_arn'' acm_certificate_pattern
             ''arn:aws:acm:us-east-1:532673134317:certificate/0755fa69-6f18-451a-8987-d98c395089b9''
             (FrontendConfig_kwargs.kw_certificate_arn kw) of
        Inl e \<Rightarrow> Inl (ValidationError ''FrontendConfig'' [e])
      | Inr arn \<Rightarrow>
          Inr \<lparr>domain_name = field_or ''dev-frontend.piercuta.com'' (kw_domain_name kw),
               FrontendConfig.certificate_arn = arn,
               certificate_provider = field_or ''acm'' (kw_certificate_provider kw)\<rparr>)"

subsection \<open>CICDFronendConfig and CICDBackendConfig\<close>

record CICDFronendConfig =
  github_connection_arn :: string
  github_owner :: string
  github_frontend_repo :: string
  github_frontend_branch :: string

record CICDFronendConfig_kwargs =
  kw_github_connection_arn :: "string option"
  kw_github_owner :: "string option"
  kw_github_frontend_repo :: "string option"
  kw_github_frontend_branch :: "string option"

definition CICDFronendConfig_init :: "CICDFronendConfig_kwargs \<Rightarrow> py_error + CICDFronendConfig" where
  "CICDFronendConfig_init kw =
     (case pattern_field ''github_connection_arn'' codeconnections_pattern
             ''arn:aws:codeconnections:eu-west-1:532673134317:connection/2a30a395-8d38-43ab-827b-f39a83c9986a''
             (kw_github_connection_arn kw) of
        Inl e \<Rightarrow> Inl (ValidationError ''CICDFronendConfig'' [e])
      | Inr arn \<Rightarrow>
          Inr \<lparr>github_connection_arn = arn,
               github_owner = field_or ''Piercuta'' (kw_github_owner kw),
               github_frontend_repo = field_or ''full-stack-fastapi-front'' (kw_github_frontend_repo kw),
               github_frontend_branch = field_or ''dev'' (kw_github_frontend_branch kw)\<rparr>)"

record CICDBackendConfig =
  github_connection_arn :: string
  github_owner :: string
  github_backend_repo :: string
  github_backend_branch :: string

record CICDBackendConfig_kwargs =
  kw_github_connection_arn :: "string option"
  kw_github_owner :: "string option"
  kw_github_backend_repo :: "string option"
  kw_github_backend_branch :: "string option"

definition CICDBackendConfig_init :: "CICDBackendConfig_kwargs \<Rightarrow> py_error + CICDBackendConfig" where
  "CICDBackendConfig_init kw =
     (case pattern_field ''github_connection_arn'' codeconnections_pattern
             ''arn:aws:codeconnections:eu-west-1:532673134317:connection/2a30a395-8d38-43ab-827b-f39a83c9986a''
             (CICDBackendConfig_kwargs.kw_github_connection_arn kw) of
        Inl e \<Rightarrow> Inl (ValidationError ''CICDBackendConfig'' [e])
      | Inr arn \<Rightarrow>
          Inr \<lparr>CICDBackendConfig.github_connection_arn = arn,
               CICDBackendConfig.github_owner =
                 field_or ''Piercuta'' (CICDBackendConfig_kwargs.kw_github_owner kw),
               github_backend_repo = field_or ''full-stack-fastapi-backend'' (kw_github_backend_repo kw),
               github_backend_branch = field_or ''dev'' (kw_github_backend_branch kw)\<rparr>)"

subsection \<open>DnsConfig\<close>

record DnsConfig =
  hosted_zone_id :: string
  zone_name :: string
  frontend_domain_name :: string
  backend_domain_name :: string

record DnsConfig_kwargs =
  kw_hosted_zone_id :: "string option"
  kw_zone_name :: "string option"
  kw_frontend_domain_name :: "string option"
  kw_backend_domain_name :: "string option"

definition DnsConfig_init :: "DnsConfig_kwargs \<Rightarrow> py_error + DnsConfig" where
  "DnsConfig_init kw =
     Inr \<lparr>hosted_zone_id = field_or ''Z0068506UV3AK4JBKP59'' (kw_hosted_zone_id kw),
          zone_name = field_or ''piercuta.com'' (kw_zone_name kw),
          frontend_domain_name = field_or ''dev-frontend.piercuta.com'' (kw_frontend_domain_name kw),
          backend_domain_name = field_or ''dev-backend.piercuta.com'' (kw_backend_domain_name kw)\<rparr>"

section \<open>InfrastructureConfig\<close>

record InfrastructureConfig = BaseConfig +
  aws :: AwsConfig
  vpc :: VpcConfig
  database :: DatabaseConfig
  backend :: BackendConfig
  frontend :: FrontendConfig
  cicd_fronend :: CICDFronendConfig
  cicd_backend :: CICDBackendConfig
  dns :: DnsConfig

text \<open>
  The aggregate's constructor receives the two names as text and the eight
  sub-configurations as instances already built; the environment name is validated
  against the enumeration.
\<close>

record InfrastructureConfig_kwargs =
  kw_env_name :: string
  kw_project_name :: string
  kw_aws :: AwsConfig
  kw_vpc :: VpcConfig
  kw_database :: DatabaseConfig
  kw_backend :: BackendConfig
  kw_frontend :: FrontendConfig
  kw_cicd_fronend :: CICDFronendConfig
  kw_cicd_backend :: CICDBackendConfig
  kw_dns :: DnsConfig

definition InfrastructureConfig_init :: "InfrastructureConfig_kwargs \<Rightarrow> py_error + InfrastructureConfig" where
  "InfrastructureConfig_init kw =
     (case EnvironmentName_of (kw_env_name kw) of
        None \<Rightarrow> Inl (ValidationError ''InfrastructureConfig'' [EnumMismatch ''env_name''])
      | Some e \<Rightarrow>
          Inr \<lparr>env_name = e,
               project_name = kw_project_name kw,
               aws = kw_aws kw,
               vpc = kw_vpc kw,
               database = kw_database kw,
               backend = kw_backend kw,
               frontend = kw_frontend kw,
               cicd_fronend = kw_cicd_fronend kw,
               cicd_backend = kw_cicd_backend kw,
               dns = kw_dns kw\<rparr>)"

section \<open>ConfigLoader (loader.py)\<close>

text \<open>
  The parsed environment file. The loader subscripts it with eight fixed keys and unpacks
  each value as keyword arguments, so a document is either not a mapping at all, or a
  mapping in which each of the eight keys is absent, bound to something that is not a
  mapping, bound to a mapping with a key that is not a string, or bound to a mapping whose
  keys are all strings. In the last case \<open>Mapping kw\<close> holds the values of the keys the
  schema names, at the schema's types; the constructors ignore every other string key.
\<close>

datatype 'a section_value = NoKey | NotMapping | NonStringKey | Mapping 'a

record env_config =
  sec_aws :: "AwsConfig_kwargs section_value"
  sec_vpc :: "VpcConfig_kwargs section_value"
  sec_database :: "DatabaseConfig_kwargs section_value"
  sec_backend :: "BackendConfig_kwargs section_value"
  sec_frontend :: "FrontendConfig_kwargs section_value"
  sec_cicd_fronend :: "CICDFronendConfig_kwargs section_value"
  sec_cicd_backend :: "CICDBackendConfig_kwargs section_value"
  sec_dns :: "DnsConfig_kwargs section_value"

datatype document = NotDict | Dict env_config

record ConfigLoader =
  env_name :: string
  project_name :: string
  base_path :: string

text \<open>\<^verbatim>\<open>os.path.join\<close> on a POSIX system.\<close>

definition join2 :: "string \<Rightarrow> string \<Rightarrow> string" where
  "join2 path b =
     (if take 1 b = ''/'' then b
      else if path = [] \<or> last path = CHR ''/'' then path @ b
      else path @ ''/'' @ b)"

definition path_join :: "string \<Rightarrow> string list \<Rightarrow> string" where
  "path_join a p = foldl join2 a p"

definition config_path :: "ConfigLoader \<Rightarrow> string" where
  "config_path self = path_join (base_path self) [''environments'', ConfigLoader.env_name self @ ''.yaml'']"

definition secrets_path :: "ConfigLoader \<Rightarrow> string" where
  "secrets_path self = path_join (base_path self) [''secrets'', ConfigLoader.env_name self @ ''.json'']"

text \<open>
  The world outside the program is passed explicitly. \<open>os_open w path\<close> is what opening
  \<open>path\<close> for reading does in the world \<open>w\<close>: it gives the file's content, or raises the
  error the operating system reports (no such file, a name that is too long, a directory in
  place of the file, a file in place of a directory, a refused permission). \<open>events w\<close> records
  the input and output the program has performed. The source only ever opens files for
  reading, so the one operation is \<open>open_read\<close>, which leaves \<open>os_open\<close> as it is and
  records the read.
\<close>

datatype event = OpenRead string

record world =
  os_open :: "string \<Rightarrow> py_error + string"
  events :: "event list"

definition open_read :: "string \<Rightarrow> world \<Rightarrow> (py_error + string) \<times> world" where
  "open_read path w = (os_open w path, w\<lparr>events := events w @ [OpenRead path]\<rparr>)"

text \<open>
  \<open>safe_load\<close> is the YAML parser applied to the opened file, a parameter of the model: it
  gives the parsed document, or the error raised while decoding or parsing the content.
  \<open>json_load\<close> is the same for the JSON parser of the secrets file.
\<close>

definition load_environment_config ::
  "(string \<Rightarrow> py_error + document) \<Rightarrow> ConfigLoader \<Rightarrow> world \<Rightarrow> (py_error + document) \<times> world" where
  "load_environment_config safe_load self w =
     (case open_read (config_path self) w of
        (Inl e, w') \<Rightarrow> (Inl e, w')
      | (Inr content, w') \<Rightarrow> (safe_load content, w'))"

definition load_secrets ::
  "(string \<Rightarrow> py_error + 'j) \<Rightarrow> ConfigLoader \<Rightarrow> world \<Rightarrow> (py_error + 'j) \<times> world" where
  "load_secrets json_load self w =
     (case open_read (secrets_path self) w of
        (Inl e, w') \<Rightarrow> (Inl e, w')
      | (Inr content, w') \<Rightarrow> (json_load content, w'))"

text \<open>\<^verbatim>\<open>Cls(**env_config[key])\<close>: subscript, unpack, construct.\<close>

definition construct :: "string \<Rightarrow> ('k \<Rightarrow> py_error + 'c) \<Rightarrow> 'k section_value \<Rightarrow> py_error + 'c" where
  "construct key init v =
     (case v of
        NoKey \<Rightarrow> Inl (KeyError key)
      | NotMapping \<Rightarrow> Inl TypeError
      | NonStringKey \<Rightarrow> Inl TypeError
      | Mapping kw \<Rightarrow> init kw)"

text \<open>
  Sequencing: the first raise ends the evaluation. \<open>build_config\<close> is the body of
  \<^verbatim>\<open>create_config\<close> after the file was loaded: the dict literal's entries are evaluated in
  order, then the aggregate is constructed. None of it touches the world.
\<close>

definition and_then :: "'e + 'a \<Rightarrow> ('a \<Rightarrow> 'e + 'b) \<Rightarrow> 'e + 'b" where
  "and_then r f = (case r of Inl e \<Rightarrow> Inl e | Inr x \<Rightarrow> f x)"

definition build_config :: "ConfigLoader \<Rightarrow> document \<Rightarrow> py_error + InfrastructureConfig" where
  "build_config self doc =
     (case doc of
        NotDict \<Rightarrow> Inl TypeError
      | Dict env \<Rightarrow>
          and_then (construct ''aws'' AwsConfig_init (sec_aws env)) (\<lambda>c_aws.
          and_then (construct ''vpc'' VpcConfig_init (sec_vpc env)) (\<lambda>c_vpc.
          and_then (construct ''database'' DatabaseConfig_init (sec_database env)) (\<lambda>c_database.
          and_then (construct ''backend'' BackendConfig_init (sec_backend env)) (\<lambda>c_backend.
          and_then (construct ''frontend'' FrontendConfig_init (sec_frontend env)) (\<lambda>c_frontend.
          and_then (construct ''cicd_fronend'' CICDFronendConfig_init (sec_cicd_fronend env)) (\<lambda>c_cicd_fronend.
          and_then (construct ''cicd_backend'' CICDBackendConfig_init (sec_cicd_backend env)) (\<lambda>c_cicd_backend.
          and_then (construct ''dns'' DnsConfig_init (sec_dns env)) (\<lambda>c_dns.
            InfrastructureConfig_init
              \<lparr>kw_env_name = ConfigLoader.env_name self,
               kw_project_name = ConfigLoader.project_name self,
               kw_aws = c_aws,
               kw_vpc = c_vpc,
               kw_database = c_database,
               kw_backend = c_backend,
               kw_frontend = c_frontend,
               kw_cicd_fronend = c_cicd_fronend,
               kw_cicd_backend = c_cicd_backend,
               kw_dns = c_dns\<rparr>)))))))))"

definition create_config ::
  "(string \<Rightarrow> py_error + document) \<Rightarrow> ConfigLoader \<Rightarrow> world \<Rightarrow> (py_error + InfrastructureConfig) \<times> world" where
  "create_config safe_load self w =
     (case load_environment_config safe_load self w of
        (env_config, w') \<Rightarrow> (and_then env_config (build_config self), w'))"

section \<open>Notions used in the statements\<close>

text \<open>
  \<open>given_matches pattern v\<close>: the keyword argument \<open>v\<close>, when given, matches the pattern.
  \<open>no_backend_kwargs\<close> and its like are the empty mappings of keyword arguments.
\<close>

definition given_matches :: "ritem list \<Rightarrow> string option \<Rightarrow> bool" where
  "given_matches pattern v = (case v of None \<Rightarrow> True | Some s \<Rightarrow> matches pattern s)"

definition no_backend_kwargs :: BackendConfig_kwargs where
  "no_backend_kwargs =
     \<lparr>kw_task_cpu = None, kw_task_memory = None, kw_desired_count = None,
      BackendConfig_kwargs.kw_certificate_arn = None, kw_container_env_vars = None,
      kw_auto_scaling_min_capacity = None, kw_auto_scaling_max_capacity = None,
      kw_ecr_repository_name = None, kw_ecr_image_tag = None\<rparr>"

definition no_frontend_kwargs :: FrontendConfig_kwargs where
  "no_frontend_kwargs =
     \<lparr>kw_domain_name = None, FrontendConfig_kwargs.kw_certificate_arn = None,
      kw_certificate_provider = None\<rparr>"

definition no_cicd_fronend_kwargs :: CICDFronendConfig_kwargs where
  "no_cicd_fronend_kwargs =
     \<lparr>CICDFronendConfig_kwargs.kw_github_connection_arn = None,
      CICDFronendConfig_kwargs.kw_github_owner = None,
      kw_github_frontend_repo = None, kw_github_frontend_branch = None\<rparr>"

definition no_cicd_backend_kwargs :: CICDBackendConfig_kwargs where
  "no_cicd_backend_kwargs =
     \<lparr>CICDBackendConfig_kwargs.kw_github_connection_arn = None,
      CICDBackendConfig_kwargs.kw_github_owner = None,
      kw_github_backend_repo = None, kw_github_backend_branch = None\<rparr>"

text \<open>
  A sample run: a loader for the environment \<open>dev\<close> of project \<open>acme\<close>, a world whose one
  file is that environment file, and a parser that reads the file as \<open>example_env\<close>. Of
  that world the statements below use what three paths open to: the environment file of
  \<open>dev\<close> gives its content, the environment file of \<open>prod\<close> is reported missing, and a
  file name longer than 255 characters is refused with error number 36 (file name too long),
  as Linux file systems do. \<open>other_world\<close> differs from it by a secrets file and by an
  earlier read. \<open>long_name_loader\<close> is a loader whose environment name has 300 characters.
\<close>

definition example_loader :: ConfigLoader where
  "example_loader =
     \<lparr>ConfigLoader.env_name = ''dev'', ConfigLoader.project_name = ''acme'', base_path = ''/app/config''\<rparr>"

definition example_env :: env_config where
  "example_env =
     \<lparr>sec_aws = Mapping \<lparr>kw_account = Some ''123456789012'', kw_region = Some ''eu-west-1''\<rparr>,
      sec_vpc = Mapping \<lparr>kw_cidr = None, kw_max_azs = Some 2, kw_reserved_azs = None,
                         kw_nat_gateways = None, kw_automatic_subnet_creation = Some False\<rparr>,
      sec_database = Mapping \<lparr>kw_snapshot_identifier = None, kw_backup_retention = Some 7,
                              kw_instance_reader = None,
                              kw_serverless_v2_min_capacity = Some (Finite 1),
                              kw_serverless_v2_max_capacity = Some (Finite 4),
                              kw_master_username = None\<rparr>,
      sec_backend = Mapping (no_backend_kwargs\<lparr>kw_desired_count := Some 2,
                              kw_container_env_vars := Some [(''LOG_LEVEL'', ''debug'')]\<rparr>),
      sec_frontend = Mapping (no_frontend_kwargs\<lparr>kw_domain_name := Some ''dev-app.example.com''\<rparr>),
      sec_cicd_fronend = Mapping (no_cicd_fronend_kwargs\<lparr>kw_github_frontend_branch := Some ''main''\<rparr>),
      sec_cicd_backend = Mapping no_cicd_backend_kwargs,
      sec_dns = Mapping \<lparr>kw_hosted_zone_id = None, kw_zone_name = Some ''example.com'',
                         kw_frontend_domain_name = None, kw_backend_domain_name = None\<rparr>\<rparr>"

definition basename :: "string \<Rightarrow> string" where
  "basename path = rev (takeWhile (\<lambda>c. c \<noteq> CHR ''/'') (rev path))"

definition example_os_open :: "string \<Rightarrow> py_error + string" where
  "example_os_open path =
     (if path = ''/app/config/environments/dev.yaml'' then Inr ''dev settings''
      else if 255 < length (basename path) then Inl (OSError 36)
      else Inl (FileNotFoundError path))"

definition example_world :: world where
  "example_world = \<lparr>os_open = example_os_open, events = []\<rparr>"

definition example_safe_load :: "string \<Rightarrow> py_error + document" where
  "example_safe_load content = (if content = ''dev settings'' then Inr (Dict example_env) else Inl YAMLError)"

definition long_name_loader :: ConfigLoader where
  "long_name_loader =
     \<lparr>ConfigLoader.env_name = replicate 300 CHR ''a'', ConfigLoader.project_name = ''acme'',
      base_path = ''/app/config''\<rparr>"

definition other_world :: world where
  "other_world =
     \<lparr>os_open = (\<lambda>path. if path = ''/app/config/secrets/dev.json'' then Inr ''{}''
                         else example_os_open path),
      events = [OpenRead ''/app/cdk.json'']\<rparr>"

section \<open>Properties\<close>

subsection \<open>Auxiliary facts\<close>

lemma float_ge_not_lt: "float_ge a b \<Longrightarrow> \<not> float_lt a b"
  by (cases a; cases b) auto

lemma float_lt_not_ge: "float_lt a b \<Longrightarrow> \<not> float_ge a b"
  by (cases a; cases b) auto

lemma render_message:
  "render fr [Lit a, FloatArg x, Lit b, Lit c, FloatArg y, Lit d] = a @ fr x @ b @ c @ fr y @ d"
  "render fr [Lit a, IntArg m, Lit b, Lit c, IntArg n, Lit d] = a @ str_int m @ b @ c @ str_int n @ d"
  by (simp_all add: render_def)

lemma sublist_mid: "sublist x (a @ x @ b)"
  by (rule sublist_appendI)

lemma sublist_mid2: "sublist y (a @ x @ b @ c @ y @ d)"
  using sublist_appendI [of y "a @ x @ b @ c" d] by simp

lemma min_capacity_field:
  "ge_float_field name (Finite (1 / 2)) (Finite (1 / 2)) v =
     (if float_ge (field_or (Finite (1 / 2)) v) (Finite (1 / 2))
      then Inr (field_or (Finite (1 / 2)) v) else Inl (GreaterThanEqual name))"
  by (cases v) (simp_all add: ge_float_field_def field_or_def)

lemma min_scaling_field:
  "ge_int_field name 1 1 v =
     (if field_or 1 v < 1 then Inl (GreaterThanEqual name) else Inr (field_or 1 v))"
  by (cases v) (simp_all add: ge_int_field_def field_or_def)

lemma pattern_field_ok:
  "given_matches pattern v \<Longrightarrow> pattern_field name pattern dflt v = Inr (field_or dflt v)"
  by (cases v) (simp_all add: pattern_field_def field_or_def given_matches_def)

lemma pattern_field_cases:
  "pattern_field name pattern dflt v = Inr (field_or dflt v)
   \<or> pattern_field name pattern dflt v = Inl (StringPatternMismatch name)"
  by (cases v) (simp_all add: pattern_field_def field_or_def)

lemma str_int_examples: "str_int 5 = ''5''" "str_int 0 = ''0''" "str_int (-5) = ''-5''" "str_int 12 = ''12''"
  by (simp_all add: str_int_def digit_char_def)

text \<open>What \<open>matches\<close> decides, item by item, and the shape of the two ARN patterns.\<close>

lemma matches_Literal:
  "matches (Literal l # r) s \<longleftrightarrow> (\<exists>t. s = l @ t \<and> matches r t)"
proof
  assume "matches (Literal l # r) s"
  then have "take (length l) s = l" and "matches r (drop (length l) s)" by simp_all
  then have "s = l @ drop (length l) s \<and> matches r (drop (length l) s)"
    by (metis append_take_drop_id)
  then show "\<exists>t. s = l @ t \<and> matches r t" ..
next
  assume "\<exists>t. s = l @ t \<and> matches r t"
  then show "matches (Literal l # r) s" by auto
qed

lemma matches_OneOrMore:
  "matches (OneOrMore cls # r) s \<longleftrightarrow>
     (\<exists>u t. s = u @ t \<and> u \<noteq> [] \<and> list_all (in_class cls) u \<and> matches r t)"
proof (induction s)
  case Nil
  then show ?case by simp
next
  case (Cons c cs)
  show ?case
  proof
    assume "matches (OneOrMore cls # r) (c # cs)"
    then have c: "in_class cls c" and d: "matches (OneOrMore cls # r) cs \<or> matches r cs"
      by simp_all
    from d show "\<exists>u t. c # cs = u @ t \<and> u \<noteq> [] \<and> list_all (in_class cls) u \<and> matches r t"
    proof
      assume "matches (OneOrMore cls # r) cs"
      with Cons.IH obtain u t where "cs = u @ t" "list_all (in_class cls) u" "matches r t"
        by blast
      with c have "c # cs = (c # u) @ t \<and> c # u \<noteq> [] \<and> list_all (in_class cls) (c # u) \<and> matches r t"
        by simp
      then show ?thesis by blast
    next
      assume "matches r cs"
      with c have "c # cs = [c] @ cs \<and> [c] \<noteq> [] \<and> list_all (in_class cls) [c] \<and> matches r cs"
        by simp
      then show ?thesis by blast
    qed
  next
    assume "\<exists>u t. c # cs = u @ t \<and> u \<noteq> [] \<and> list_all (in_class cls) u \<and> matches r t"
    then obtain u t where u: "c # cs = u @ t" "u \<noteq> []" "list_all (in_class cls) u" "matches r t"
      by blast
    then obtain u' where u': "u = c # u'" "cs = u' @ t"
      by (cases u) auto
    show "matches (OneOrMore cls # r) (c # cs)"
    proof (cases "u' = []")
      case True
      with u u' show ?thesis by simp
    next
      case False
      with u u' have "matches (OneOrMore cls # r) cs"
        using Cons.IH by auto
      with u u' show ?thesis by simp
    qed
  qed
qed

lemma matches_Exactly:
  "matches (Exactly n cls # r) s \<longleftrightarrow>
     (\<exists>u t. s = u @ t \<and> length u = n \<and> list_all (in_class cls) u \<and> matches r t)"
proof (induction n arbitrary: s)
  case 0
  then show ?case by simp
next
  case (Suc n)
  show ?case
  proof (cases s)
    case Nil
    then show ?thesis by simp
  next
    case (Cons c cs)
    show ?thesis
    proof
      assume "matches (Exactly (Suc n) cls # r) s"
      with Cons have c: "in_class cls c" and "matches (Exactly n cls # r) cs" by simp_all
      with Suc.IH obtain u t where "cs = u @ t" "length u = n" "list_all (in_class cls) u" "matches r t"
        by blast
      with c Cons have "s = (c # u) @ t \<and> length (c # u) = Suc n \<and> list_all (in_class cls) (c # u) \<and> matches r t"
        by simp
      then show "\<exists>u t. s = u @ t \<and> length u = Suc n \<and> list_all (in_class cls) u \<and> matches r t"
        by blast
    next
      assume "\<exists>u t. s = u @ t \<and> length u = Suc n \<and> list_all (in_class cls) u \<and> matches r t"
      then obtain u t where u: "s = u @ t" "length u = Suc n" "list_all (in_class cls) u" "matches r t"
        by blast
      then obtain u' where u': "u = c # u'" "cs = u' @ t" "length u' = n"
        using Cons by (cases u) auto
      with u have "matches (Exactly n cls # r) cs"
        using Suc.IH by auto
      with u u' Cons show "matches (Exactly (Suc n) cls # r) s" by simp
    qed
  qed
qed

lemma acm_certificate_pattern_shape:
  "matches acm_certificate_pattern s \<longleftrightarrow>
     (\<exists>region acct res.
        s = ''arn:aws:acm:'' @ region @ '':'' @ acct @ '':certificate/'' @ res
        \<and> region \<noteq> []
        \<and> list_all (in_class [Range CHR ''a'' CHR ''z'', Range CHR ''0'' CHR ''9'', Single CHR ''-'']) region
        \<and> length acct = 12 \<and> list_all (in_class [Digit]) acct
        \<and> res \<noteq> []
        \<and> list_all (in_class [Range CHR ''a'' CHR ''z'', Range CHR ''A'' CHR ''Z'',
                               Range CHR ''0'' CHR ''9'', Single CHR ''-'']) res)"
  unfolding acm_certificate_pattern_def matches_Literal matches_OneOrMore matches_Exactly
  by (simp only: matches.simps(1)) (auto; blast)


lemma codeconnections_pattern_shape:
  "matches codeconnections_pattern s \<longleftrightarrow>
     (\<exists>region acct res.
        s = ''arn:aws:codeconnections:'' @ region @ '':'' @ acct @ '':connection/'' @ res
        \<and> region \<noteq> []
        \<and> list_all (in_class [Range CHR ''a'' CHR ''z'', Range CHR ''0'' CHR ''9'', Single CHR ''-'']) region
        \<and> length acct = 12 \<and> list_all (in_class [Digit]) acct
        \<and> res \<noteq> []
        \<and> list_all (in_class [Range CHR ''a'' CHR ''z'', Range CHR ''A'' CHR ''Z'',
                               Range CHR ''0'' CHR ''9'', Single CHR ''-'']) res)"
  unfolding codeconnections_pattern_def matches_Literal matches_OneOrMore matches_Exactly
  by (simp only: matches.simps(1)) (auto; blast)

lemma pattern_field_given:
  "pattern_field name pattern dflt (Some s) =
     (if matches pattern s then Inr s else Inl (StringPatternMismatch name))"
  by (simp add: pattern_field_def)

lemma acm_example: "matches acm_certificate_pattern ''arn:aws:acm:eu-west-1:123456789012:certificate/ab-12''"
  by code_simp

lemma acm_mismatch: "\<not> matches acm_certificate_pattern ''arn:aws:acm:eu-west-1:12345:certificate/ab-12''"
  by code_simp

lemma codeconnections_example:
  "matches codeconnections_pattern ''arn:aws:codeconnections:eu-west-1:123456789012:connection/2a30-Z''"
  by code_simp

lemma codeconnections_mismatch:
  "\<not> matches codeconnections_pattern ''arn:aws:acm:eu-west-1:123456789012:certificate/ab-12''"
  by code_simp

text \<open>The fields of an instance that a constructor returned, and the loader's steps.\<close>

lemma AwsRegion_of_value: "AwsRegion_of s = Some r \<Longrightarrow> AwsRegion_value r = s"
  by (auto simp: AwsRegion_of_def split: if_splits)

lemma EnvironmentName_of_value: "EnvironmentName_of s = Some e \<Longrightarrow> EnvironmentName_value e = s"
  by (auto simp: EnvironmentName_of_def split: if_splits)

lemma AwsConfig_init_fields:
  "AwsConfig_init kw = Inr c \<Longrightarrow>
     kw_account kw = Some (account c) \<and> kw_region kw = Some (AwsRegion_value (region c))"
  by (auto simp: AwsConfig_init_def required_field_def region_field_def Let_def
      dest: AwsRegion_of_value split: option.splits)

lemma DatabaseConfig_init_fields:
  "DatabaseConfig_init kw = Inr c \<Longrightarrow>
     c = \<lparr>snapshot_identifier = field_or None (kw_snapshot_identifier kw),
          backup_retention = field_or 2 (kw_backup_retention kw),
          instance_reader = field_or False (kw_instance_reader kw),
          serverless_v2_min_capacity = field_or (Finite (1 / 2)) (kw_serverless_v2_min_capacity kw),
          serverless_v2_max_capacity = field_or (Finite 2) (kw_serverless_v2_max_capacity kw),
          master_username = field_or ''postgres'' (kw_master_username kw)\<rparr>"
  by (auto simp: DatabaseConfig_init_def min_capacity_field validate_capacity_def split: if_splits)

lemma pattern_field_value:
  "pattern_field name pattern dflt v = Inr x \<Longrightarrow> x = field_or dflt v"
  by (cases v) (auto simp: pattern_field_def field_or_def split: if_splits)

lemma BackendConfig_init_fields:
  "BackendConfig_init kw = Inr c \<Longrightarrow>
     c = \<lparr>task_cpu = field_or ''500m'' (kw_task_cpu kw),
          task_memory = field_or ''512Mi'' (kw_task_memory kw),
          desired_count = field_or 1 (kw_desired_count kw),
          BackendConfig.certificate_arn =
            field_or ''arn:aws:acm:eu-west-1:532673134317:certificate/905d0d16-87e8-4e89-a88c-b6053f472e81''
              (BackendConfig_kwargs.kw_certificate_arn kw),
          container_env_vars = field_or [] (kw_container_env_vars kw),
          auto_scaling_min_capacity = field_or 1 (kw_auto_scaling_min_capacity kw),
          auto_scaling_max_capacity = field_or 5 (kw_auto_scaling_max_capacity kw),
          ecr_repository_name = field_or ''services/ecs/fastapi_app'' (kw_ecr_repository_name kw),
          ecr_image_tag = field_or ''lastest'' (kw_ecr_image_tag kw)\<rparr>"
  by (auto simp: BackendConfig_init_def min_scaling_field validate_auto_scaling_def Let_def
      dest: pattern_field_value split: sum.splits if_splits)

lemma FrontendConfig_init_fields:
  "FrontendConfig_init kw = Inr c \<Longrightarrow>
     c = \<lparr>domain_name = field_or ''dev-frontend.piercuta.com'' (kw_domain_name kw),
          FrontendConfig.certificate_arn =
            field_or ''arn:aws:acm:us-east-1:532673134317:certificate/0755fa69-6f18-451a-8987-d98c395089b9''
              (FrontendConfig_kwargs.kw_certificate_arn kw),
          certificate_provider = field_or ''acm'' (kw_certificate_provider kw)\<rparr>"
  by (auto simp: FrontendConfig_init_def dest: pattern_field_value split: sum.splits)

lemma CICDFronendConfig_init_fields:
  "CICDFronendConfig_init kw = Inr c \<Longrightarrow>
     c = \<lparr>CICDFronendConfig.github_connection_arn =
            field_or ''arn:aws:codeconnections:eu-west-1:532673134317:connection/2a30a395-8d38-43ab-827b-f39a83c9986a''
              (CICDFronendConfig_kwargs.kw_github_connection_arn kw),
          CICDFronendConfig.github_owner = field_or ''Piercuta'' (CICDFronendConfig_kwargs.kw_github_owner kw),
          github_frontend_repo = field_or ''full-stack-fastapi-front'' (kw_github_frontend_repo kw),
          github_frontend_branch = field_or ''dev'' (kw_github_frontend_branch kw)\<rparr>"
  by (auto simp: CICDFronendConfig_init_def dest: pattern_field_value split: sum.splits)

lemma CICDBackendConfig_init_fields:
  "CICDBackendConfig_init kw = Inr c \<Longrightarrow>
     c = \<lparr>CICDBackendConfig.github_connection_arn =
            field_or ''arn:aws:codeconnections:eu-west-1:532673134317:connection/2a30a395-8d38-43ab-827b-f39a83c9986a''
              (CICDBackendConfig_kwargs.kw_github_connection_arn kw),
          CICDBackendConfig.github_owner = field_or ''Piercuta'' (CICDBackendConfig_kwargs.kw_github_owner kw),
          github_backend_repo = field_or ''full-stack-fastapi-backend'' (kw_github_backend_repo kw),
          github_backend_branch = field_or ''dev'' (kw_github_backend_branch kw)\<rparr>"
  by (auto simp: CICDBackendConfig_init_def dest: pattern_field_value split: sum.splits)

lemma construct_Mapping: "construct key init (Mapping kw) = init kw"
  by (simp add: construct_def)

lemma and_then_Inr: "and_then (Inr x) f = f x"
  by (simp add: and_then_def)

lemma config_path_conventional:
  "base_path self \<noteq> [] \<Longrightarrow> last (base_path self) \<noteq> CHR ''/'' \<Longrightarrow>
   take 1 (ConfigLoader.env_name self) \<noteq> ''/'' \<Longrightarrow>
     config_path self = base_path self @ ''/environments/'' @ ConfigLoader.env_name self @ ''.yaml''"
  by (cases "ConfigLoader.env_name self") (simp_all add: config_path_def path_join_def join2_def)

lemma example_config_path: "config_path example_loader = ''/app/config/environments/dev.yaml''"
  by (simp add: config_path_def path_join_def join2_def example_loader_def)


text \<open>Floats, patterns and the loader under the stricter checks.\<close>

lemma float_ge_bound: "\<not> float_lt a (Finite r) \<Longrightarrow> float_ge a b \<Longrightarrow> float_ge a (Finite r)"
  by (cases a; cases b) auto

lemma pattern_field_mismatch:
  "\<not> given_matches pattern v \<Longrightarrow> pattern_field name pattern dflt v = Inl (StringPatternMismatch name)"
  by (cases v) (simp_all add: pattern_field_def given_matches_def)

text \<open>One run of \<open>create_config\<close>: its result, and the world it leaves.\<close>

lemma create_config_run:
  "create_config safe_load self w =
     ((case os_open w (config_path self) of
         Inl e \<Rightarrow> Inl e
       | Inr content \<Rightarrow> and_then (safe_load content) (build_config self)),
      w\<lparr>events := events w @ [OpenRead (config_path self)]\<rparr>)"
  by (simp add: create_config_def load_environment_config_def open_read_def and_then_def
      split: sum.splits)

lemma load_secrets_run:
  "load_secrets json_load self w =
     ((case os_open w (secrets_path self) of Inl e \<Rightarrow> Inl e | Inr content \<Rightarrow> json_load content),
      w\<lparr>events := events w @ [OpenRead (secrets_path self)]\<rparr>)"
  by (simp add: load_secrets_def open_read_def split: sum.splits)

lemma DatabaseConfig_rejects_nan_minimum:
  "DatabaseConfig_init (kw\<lparr>kw_serverless_v2_min_capacity := Some NaN\<rparr>)
     = Inl (ValidationError ''DatabaseConfig'' [GreaterThanEqual ''serverless_v2_min_capacity''])"
  by (simp add: DatabaseConfig_init_def ge_float_field_def)

text \<open>The loader's other failures: a file that does not decode or parse, a document or a
  section that is not a mapping, a missing section, a section with a key that is not a string,
  and an environment name outside the enumeration (found last, after every sub-configuration
  was built).\<close>

lemma create_config_parse_error:
  "os_open w (config_path self) = Inr content \<Longrightarrow> safe_load content = Inl e \<Longrightarrow>
     fst (create_config safe_load self w) = Inl e"
  by (simp add: create_config_run and_then_def)

lemma create_config_not_a_mapping:
  "os_open w (config_path self) = Inr content \<Longrightarrow> safe_load content = Inr NotDict \<Longrightarrow>
     fst (create_config safe_load self w) = Inl TypeError"
  by (simp add: create_config_run and_then_Inr build_config_def)

lemma create_config_first_section:
  assumes "os_open w (config_path self) = Inr content" and "safe_load content = Inr (Dict env)"
  shows "sec_aws env = NoKey \<Longrightarrow> fst (create_config safe_load self w) = Inl (KeyError ''aws'')"
    and "sec_aws env = NotMapping \<Longrightarrow> fst (create_config safe_load self w) = Inl TypeError"
    and "sec_aws env = NonStringKey \<Longrightarrow> fst (create_config safe_load self w) = Inl TypeError"
  using assms by (simp_all add: create_config_run build_config_def construct_def and_then_def)

lemma create_config_unknown_environment:
  assumes "os_open w (config_path self) = Inr content" and "safe_load content = Inr (Dict env)"
    and "EnvironmentName_of (ConfigLoader.env_name self) = None"
    and "sec_aws env = Mapping k_aws" "AwsConfig_init k_aws = Inr c_aws"
    and "sec_vpc env = Mapping k_vpc"
    and "sec_database env = Mapping k_database" "DatabaseConfig_init k_database = Inr c_database"
    and "sec_backend env = Mapping k_backend" "BackendConfig_init k_backend = Inr c_backend"
    and "sec_frontend env = Mapping k_frontend" "FrontendConfig_init k_frontend = Inr c_frontend"
    and "sec_cicd_fronend env = Mapping k_cicd_fronend"
      "CICDFronendConfig_init k_cicd_fronend = Inr c_cicd_fronend"
    and "sec_cicd_backend env = Mapping k_cicd_backend"
      "CICDBackendConfig_init k_cicd_backend = Inr c_cicd_backend"
    and "sec_dns env = Mapping k_dns"
  shows "fst (create_config safe_load self w)
    = Inl (ValidationError ''InfrastructureConfig'' [EnumMismatch ''env_name''])"
  using assms
  by (simp add: create_config_run build_config_def construct_Mapping and_then_Inr
      InfrastructureConfig_init_def VpcConfig_init_def DnsConfig_init_def)

text \<open>Conversely, whenever \<open>create_config\<close> returns an aggregate, the file opens, parses to a
  mapping, every section is a mapping that its constructor accepts, and the environment name
  is of the enumeration.\<close>

lemma and_then_Inr_iff: "and_then r f = Inr y \<longleftrightarrow> (\<exists>x. r = Inr x \<and> f x = Inr y)"
  by (cases r) (simp_all add: and_then_def)

lemma construct_Inr_iff: "construct key init v = Inr c \<longleftrightarrow> (\<exists>kw. v = Mapping kw \<and> init kw = Inr c)"
  by (cases v) (simp_all add: construct_def)

lemma create_config_accepts_only_valid:
  assumes "fst (create_config safe_load self w) = Inr cfg"
  shows "\<exists>content env e k_aws k_vpc k_database k_backend k_frontend k_cicd_fronend k_cicd_backend k_dns.
      os_open w (config_path self) = Inr content \<and> safe_load content = Inr (Dict env)
    \<and> EnvironmentName_of (ConfigLoader.env_name self) = Some e
    \<and> sec_aws env = Mapping k_aws \<and> AwsConfig_init k_aws = Inr (aws cfg)
    \<and> sec_vpc env = Mapping k_vpc
    \<and> sec_database env = Mapping k_database \<and> DatabaseConfig_init k_database = Inr (database cfg)
    \<and> sec_backend env = Mapping k_backend \<and> BackendConfig_init k_backend = Inr (backend cfg)
    \<and> sec_frontend env = Mapping k_frontend \<and> FrontendConfig_init k_frontend = Inr (frontend cfg)
    \<and> sec_cicd_fronend env = Mapping k_cicd_fronend
    \<and> CICDFronendConfig_init k_cicd_fronend = Inr (cicd_fronend cfg)
    \<and> sec_cicd_backend env = Mapping k_cicd_backend
    \<and> CICDBackendConfig_init k_cicd_backend = Inr (cicd_backend cfg)
    \<and> sec_dns env = Mapping k_dns"
proof -
  from assms obtain content where o: "os_open w (config_path self) = Inr content"
    and a: "and_then (safe_load content) (build_config self) = Inr cfg"
    by (auto simp: create_config_run split: sum.splits)
  from a obtain doc where l: "safe_load content = Inr doc" and b: "build_config self doc = Inr cfg"
    by (auto simp: and_then_Inr_iff)
  from b obtain env where d: "doc = Dict env"
    by (cases doc) (simp_all add: build_config_def)
  from b d show ?thesis
    using o l
    by (auto simp: build_config_def and_then_Inr_iff construct_Inr_iff InfrastructureConfig_init_def
        split: option.splits)
qed

text \<open>Paths of the sample loaders.\<close>

lemma missing_path: "config_path (example_loader\<lparr>ConfigLoader.env_name := ''prod''\<rparr>) = ''/app/config/environments/prod.yaml''"
  by (simp add: config_path_def path_join_def join2_def example_loader_def)

lemma long_name_path:
  "config_path long_name_loader = ''/app/config/environments/'' @ replicate 300 CHR ''a'' @ ''.yaml''"
  by (simp add: config_path_def path_join_def join2_def long_name_loader_def)

lemma long_name_basename: "basename (config_path long_name_loader) = replicate 300 CHR ''a'' @ ''.yaml''"
  by (simp add: long_name_path basename_def takeWhile_append)

subsection \<open>The claims\<close>

text \<open>
  C1. Let \<open>mn\<close> and \<open>mx\<close> be the minimum and maximum capacity of the instance under
  construction (the argument given, or the default 0.5 and 2.0). Construction of
  \<open>DatabaseConfig\<close> fails with a validation error whenever \<open>mn \<ge> mx\<close> or \<open>mn < 0.5\<close>; it
  succeeds, with every field as given or defaulted, whenever \<open>mn \<ge> 0.5\<close> and \<open>mn < mx\<close>;
  and when the field constraint holds and \<open>mn \<ge> mx\<close>, the error is the validator's, whose
  message, under any rendering \<open>fr\<close> of floats, contains both compared values.
\<close>

theorem DatabaseConfig_capacity:
  fixes kw :: DatabaseConfig_kwargs
  defines "mn \<equiv> field_or (Finite (1 / 2)) (kw_serverless_v2_min_capacity kw)"
      and "mx \<equiv> field_or (Finite 2) (kw_serverless_v2_max_capacity kw)"
  shows
  "((float_ge mn mx \<or> float_lt mn (Finite (1 / 2))) \<longrightarrow>
      (\<exists>errs. DatabaseConfig_init kw = Inl (ValidationError ''DatabaseConfig'' errs)))
   \<and> ((float_ge mn (Finite (1 / 2)) \<and> float_lt mn mx) \<longrightarrow>
      DatabaseConfig_init kw =
        Inr \<lparr>snapshot_identifier = field_or None (kw_snapshot_identifier kw),
             backup_retention = field_or 2 (kw_backup_retention kw),
             instance_reader = field_or False (kw_instance_reader kw),
             serverless_v2_min_capacity = mn,
             serverless_v2_max_capacity = mx,
             master_username = field_or ''postgres'' (kw_master_username kw)\<rparr>)
   \<and> ((\<not> float_lt mn (Finite (1 / 2)) \<and> float_ge mn mx) \<longrightarrow>
      (\<exists>msg. DatabaseConfig_init kw = Inl (ValidationError ''DatabaseConfig'' [ValueError msg])
         \<and> render fr msg =
             ''serverless_v2_min_capacity ('' @ fr mn @ '') must be less than serverless_v2_max_capacity (''
               @ fr mx @ '')''
         \<and> sublist (fr mn) (render fr msg) \<and> sublist (fr mx) (render fr msg)))"
proof (intro conjI impI)
  assume "float_ge mn mx \<or> float_lt mn (Finite (1 / 2))"
  then show "\<exists>errs. DatabaseConfig_init kw = Inl (ValidationError ''DatabaseConfig'' errs)"
    unfolding mn_def mx_def
    by (auto simp: DatabaseConfig_init_def min_capacity_field validate_capacity_def
        dest: float_lt_not_ge)
next
  assume a: "float_ge mn (Finite (1 / 2)) \<and> float_lt mn mx"
  then have "float_ge mn (Finite (1 / 2))" and "\<not> float_ge mn mx"
    by (simp_all add: float_lt_not_ge)
  then show "DatabaseConfig_init kw =
        Inr \<lparr>snapshot_identifier = field_or None (kw_snapshot_identifier kw),
             backup_retention = field_or 2 (kw_backup_retention kw),
             instance_reader = field_or False (kw_instance_reader kw),
             serverless_v2_min_capacity = mn,
             serverless_v2_max_capacity = mx,
             master_username = field_or ''postgres'' (kw_master_username kw)\<rparr>"
    unfolding mn_def mx_def
    by (simp add: DatabaseConfig_init_def min_capacity_field validate_capacity_def)
next
  assume a: "\<not> float_lt mn (Finite (1 / 2)) \<and> float_ge mn mx"
  let ?msg = "[Lit ''serverless_v2_min_capacity ('', FloatArg mn, Lit '') '',
               Lit ''must be less than serverless_v2_max_capacity ('', FloatArg mx, Lit '')'']"
  from a have "float_ge mn (Finite (1 / 2))" and "float_ge mn mx"
    by (auto intro: float_ge_bound)
  then have init: "DatabaseConfig_init kw = Inl (ValidationError ''DatabaseConfig'' [ValueError ?msg])"
    unfolding mn_def mx_def
    by (simp add: DatabaseConfig_init_def min_capacity_field validate_capacity_def)
  have r: "render fr ?msg =
      ''serverless_v2_min_capacity ('' @ fr mn @ '') must be less than serverless_v2_max_capacity (''
               @ fr mx @ '')''"
    by (simp add: render_message)
  have s1: "sublist (fr mn) (render fr ?msg)"
    unfolding render_message by (rule sublist_mid)
  have s2: "sublist (fr mx) (render fr ?msg)"
    unfolding render_message by (rule sublist_mid2)
  from init r s1 s2 show "\<exists>msg. DatabaseConfig_init kw = Inl (ValidationError ''DatabaseConfig'' [ValueError msg])
         \<and> render fr msg =
             ''serverless_v2_min_capacity ('' @ fr mn @ '') must be less than serverless_v2_max_capacity (''
               @ fr mx @ '')''
         \<and> sublist (fr mn) (render fr msg) \<and> sublist (fr mx) (render fr msg)"
    by blast
qed

theorem DatabaseConfig_capacity_witness:
  "DatabaseConfig_init
     \<lparr>kw_snapshot_identifier = None, kw_backup_retention = Some 7, kw_instance_reader = None,
      kw_serverless_v2_min_capacity = Some (Finite 1), kw_serverless_v2_max_capacity = Some (Finite 4),
      kw_master_username = None\<rparr>
   = Inr \<lparr>snapshot_identifier = None, backup_retention = 7, instance_reader = False,
          serverless_v2_min_capacity = Finite 1, serverless_v2_max_capacity = Finite 4,
          master_username = ''postgres''\<rparr>
   \<and> (\<exists>errs. DatabaseConfig_init
        \<lparr>kw_snapshot_identifier = None, kw_backup_retention = None, kw_instance_reader = None,
         kw_serverless_v2_min_capacity = Some (Finite (1 / 4)), kw_serverless_v2_max_capacity = None,
         kw_master_username = None\<rparr> = Inl (ValidationError ''DatabaseConfig'' errs))
   \<and> (\<exists>msg. DatabaseConfig_init
        \<lparr>kw_snapshot_identifier = None, kw_backup_retention = None, kw_instance_reader = None,
         kw_serverless_v2_min_capacity = Some (Finite 2), kw_serverless_v2_max_capacity = Some (Finite 2),
         kw_master_username = None\<rparr> = Inl (ValidationError ''DatabaseConfig'' [ValueError msg])
        \<and> sublist ''<2.0>'' (render (\<lambda>x. ''<2.0>'') msg))"
  using
    DatabaseConfig_capacity [of
      "\<lparr>kw_snapshot_identifier = None, kw_backup_retention = Some 7, kw_instance_reader = None,
      kw_serverless_v2_min_capacity = Some (Finite 1), kw_serverless_v2_max_capacity = Some (Finite 4),
      kw_master_username = None\<rparr>"]
    DatabaseConfig_capacity [of
      "\<lparr>kw_snapshot_identifier = None, kw_backup_retention = None, kw_instance_reader = None,
         kw_serverless_v2_min_capacity = Some (Finite (1 / 4)), kw_serverless_v2_max_capacity = None,
         kw_master_username = None\<rparr>"]
    DatabaseConfig_capacity [of
      "\<lparr>kw_snapshot_identifier = None, kw_backup_retention = None, kw_instance_reader = None,
         kw_serverless_v2_min_capacity = Some (Finite 2), kw_serverless_v2_max_capacity = Some (Finite 2),
         kw_master_username = None\<rparr>" "\<lambda>x. ''<2.0>''"]
  by (simp add: field_or_def) blast

text \<open>
  C2. Let \<open>mn\<close> and \<open>mx\<close> be the minimum and maximum auto-scaling capacity of the
  instance under construction (the argument given, or the default 1 and 5). Construction of
  \<open>BackendConfig\<close> fails with a validation error whenever \<open>mn \<ge> mx\<close>; it succeeds, with every
  field as given or defaulted, when \<open>mn < mx\<close>, \<open>mn \<ge> 1\<close> and the certificate ARN, when given,
  matches its pattern. When \<open>mn \<ge> 1\<close> and the ARN is accepted, the failure for \<open>mn \<ge> mx\<close> is
  the validator's, whose message contains both compared values. When \<open>mn < 1\<close> or the ARN is
  refused, the validator does not run: the error lists field errors only, the pattern
  mismatch and the bound on the minimum.
\<close>

theorem BackendConfig_auto_scaling:
  fixes kw :: BackendConfig_kwargs
  defines "mn \<equiv> field_or 1 (kw_auto_scaling_min_capacity kw)"
      and "mx \<equiv> field_or 5 (kw_auto_scaling_max_capacity kw)"
      and "arn \<equiv> field_or
             ''arn:aws:acm:eu-west-1:532673134317:certificate/905d0d16-87e8-4e89-a88c-b6053f472e81''
             (BackendConfig_kwargs.kw_certificate_arn kw)"
  shows
  "(mn \<ge> mx \<longrightarrow>
      (\<exists>errs. BackendConfig_init kw = Inl (ValidationError ''BackendConfig'' errs)))
   \<and> (mn < mx \<and> mn \<ge> 1 \<and> given_matches acm_certificate_pattern (BackendConfig_kwargs.kw_certificate_arn kw) \<longrightarrow>
      BackendConfig_init kw =
        Inr \<lparr>task_cpu = field_or ''500m'' (kw_task_cpu kw),
             task_memory = field_or ''512Mi'' (kw_task_memory kw),
             desired_count = field_or 1 (kw_desired_count kw),
             BackendConfig.certificate_arn = arn,
             container_env_vars = field_or [] (kw_container_env_vars kw),
             auto_scaling_min_capacity = mn,
             auto_scaling_max_capacity = mx,
             ecr_repository_name = field_or ''services/ecs/fastapi_app'' (kw_ecr_repository_name kw),
             ecr_image_tag = field_or ''lastest'' (kw_ecr_image_tag kw)\<rparr>)
   \<and> (mn \<ge> mx \<and> mn \<ge> 1 \<and> given_matches acm_certificate_pattern (BackendConfig_kwargs.kw_certificate_arn kw) \<longrightarrow>
      (\<exists>msg. BackendConfig_init kw = Inl (ValidationError ''BackendConfig'' [ValueError msg])
         \<and> render fr msg =
             ''auto_scaling_min_capacity ('' @ str_int mn @ '') must be less than auto_scaling_max_capacity (''
               @ str_int mx @ '')''
         \<and> sublist (str_int mn) (render fr msg) \<and> sublist (str_int mx) (render fr msg)))
   \<and> (mn < 1 \<or> \<not> given_matches acm_certificate_pattern (BackendConfig_kwargs.kw_certificate_arn kw) \<longrightarrow>
      (\<exists>errs. BackendConfig_init kw = Inl (ValidationError ''BackendConfig'' errs)
         \<and> errs \<noteq> []
         \<and> list_all (\<lambda>d. d = StringPatternMismatch ''certificate_arn''
                          \<or> d = GreaterThanEqual ''auto_scaling_min_capacity'') errs))"
proof (intro conjI impI)
  assume "mn \<ge> mx"
  then show "\<exists>errs. BackendConfig_init kw = Inl (ValidationError ''BackendConfig'' errs)"
    using pattern_field_cases [of "''certificate_arn''" acm_certificate_pattern
        "''arn:aws:acm:eu-west-1:532673134317:certificate/905d0d16-87e8-4e89-a88c-b6053f472e81''"
        "BackendConfig_kwargs.kw_certificate_arn kw"]
    unfolding mn_def mx_def
    by (auto simp: BackendConfig_init_def min_scaling_field validate_auto_scaling_def Let_def errors_of_def)
next
  assume "mn < mx \<and> mn \<ge> 1 \<and> given_matches acm_certificate_pattern (BackendConfig_kwargs.kw_certificate_arn kw)"
  then show "BackendConfig_init kw =
        Inr \<lparr>task_cpu = field_or ''500m'' (kw_task_cpu kw),
             task_memory = field_or ''512Mi'' (kw_task_memory kw),
             desired_count = field_or 1 (kw_desired_count kw),
             BackendConfig.certificate_arn = arn,
             container_env_vars = field_or [] (kw_container_env_vars kw),
             auto_scaling_min_capacity = mn,
             auto_scaling_max_capacity = mx,
             ecr_repository_name = field_or ''services/ecs/fastapi_app'' (kw_ecr_repository_name kw),
             ecr_image_tag = field_or ''lastest'' (kw_ecr_image_tag kw)\<rparr>"
    unfolding mn_def mx_def arn_def
    by (simp add: BackendConfig_init_def min_scaling_field validate_auto_scaling_def Let_def pattern_field_ok)
next
  assume a: "mn \<ge> mx \<and> mn \<ge> 1 \<and> given_matches acm_certificate_pattern (BackendConfig_kwargs.kw_certificate_arn kw)"
  let ?msg = "[Lit ''auto_scaling_min_capacity ('', IntArg mn, Lit '') '',
               Lit ''must be less than auto_scaling_max_capacity ('', IntArg mx, Lit '')'']"
  from a have init: "BackendConfig_init kw = Inl (ValidationError ''BackendConfig'' [ValueError ?msg])"
    unfolding mn_def mx_def
    by (simp add: BackendConfig_init_def min_scaling_field validate_auto_scaling_def Let_def pattern_field_ok)
  have r: "render fr ?msg =
      ''auto_scaling_min_capacity ('' @ str_int mn @ '') must be less than auto_scaling_max_capacity (''
               @ str_int mx @ '')''"
    by (simp add: render_message)
  have s1: "sublist (str_int mn) (render fr ?msg)"
    unfolding render_message by (rule sublist_mid)
  have s2: "sublist (str_int mx) (render fr ?msg)"
    unfolding render_message by (rule sublist_mid2)
  from init r s1 s2 show "\<exists>msg. BackendConfig_init kw = Inl (ValidationError ''BackendConfig'' [ValueError msg])
         \<and> render fr msg =
             ''auto_scaling_min_capacity ('' @ str_int mn @ '') must be less than auto_scaling_max_capacity (''
               @ str_int mx @ '')''
         \<and> sublist (str_int mn) (render fr msg) \<and> sublist (str_int mx) (render fr msg)"
    by blast
next
  assume "mn < 1 \<or> \<not> given_matches acm_certificate_pattern (BackendConfig_kwargs.kw_certificate_arn kw)"
  then show "\<exists>errs. BackendConfig_init kw = Inl (ValidationError ''BackendConfig'' errs)
         \<and> errs \<noteq> []
         \<and> list_all (\<lambda>d. d = StringPatternMismatch ''certificate_arn''
                          \<or> d = GreaterThanEqual ''auto_scaling_min_capacity'') errs"
    unfolding mn_def
    by (cases "given_matches acm_certificate_pattern (BackendConfig_kwargs.kw_certificate_arn kw)")
       (auto simp: BackendConfig_init_def min_scaling_field Let_def errors_of_def pattern_field_ok
          pattern_field_mismatch)
qed

theorem BackendConfig_auto_scaling_witness:
  "(\<exists>c. BackendConfig_init
      (no_backend_kwargs\<lparr>kw_auto_scaling_min_capacity := Some 2, kw_auto_scaling_max_capacity := Some 12\<rparr>)
     = Inr c \<and> auto_scaling_min_capacity c = 2 \<and> auto_scaling_max_capacity c = 12)
   \<and> (\<exists>msg. BackendConfig_init
      (no_backend_kwargs\<lparr>kw_auto_scaling_min_capacity := Some 5\<rparr>)
     = Inl (ValidationError ''BackendConfig'' [ValueError msg])
     \<and> render (\<lambda>x. []) msg = ''auto_scaling_min_capacity (5) must be less than auto_scaling_max_capacity (5)'')
   \<and> (\<exists>errs. BackendConfig_init
      (no_backend_kwargs\<lparr>kw_auto_scaling_min_capacity := Some 0, kw_auto_scaling_max_capacity := Some (-5)\<rparr>)
     = Inl (ValidationError ''BackendConfig'' errs)
     \<and> list_all (\<lambda>d. d = StringPatternMismatch ''certificate_arn''
                      \<or> d = GreaterThanEqual ''auto_scaling_min_capacity'') errs)"
proof -
  note ok = BackendConfig_auto_scaling [of
      "no_backend_kwargs\<lparr>kw_auto_scaling_min_capacity := Some 2, kw_auto_scaling_max_capacity := Some 12\<rparr>"]
  note cross = BackendConfig_auto_scaling [of
      "no_backend_kwargs\<lparr>kw_auto_scaling_min_capacity := Some 5\<rparr>" "\<lambda>x. []"]
  note low = BackendConfig_auto_scaling [of
      "no_backend_kwargs\<lparr>kw_auto_scaling_min_capacity := Some 0, kw_auto_scaling_max_capacity := Some (-5)\<rparr>"]
  from ok have 1: "\<exists>c. BackendConfig_init
      (no_backend_kwargs\<lparr>kw_auto_scaling_min_capacity := Some 2, kw_auto_scaling_max_capacity := Some 12\<rparr>)
     = Inr c \<and> auto_scaling_min_capacity c = 2 \<and> auto_scaling_max_capacity c = 12"
    by (simp add: field_or_def no_backend_kwargs_def given_matches_def)
  from cross have 2: "\<exists>msg. BackendConfig_init
      (no_backend_kwargs\<lparr>kw_auto_scaling_min_capacity := Some 5\<rparr>)
     = Inl (ValidationError ''BackendConfig'' [ValueError msg])
     \<and> render (\<lambda>x. []) msg = ''auto_scaling_min_capacity (5) must be less than auto_scaling_max_capacity (5)''"
    by (simp add: field_or_def no_backend_kwargs_def given_matches_def str_int_examples) blast
  from low have 3: "\<exists>errs. BackendConfig_init
      (no_backend_kwargs\<lparr>kw_auto_scaling_min_capacity := Some 0, kw_auto_scaling_max_capacity := Some (-5)\<rparr>)
     = Inl (ValidationError ''BackendConfig'' errs)
     \<and> list_all (\<lambda>d. d = StringPatternMismatch ''certificate_arn''
                      \<or> d = GreaterThanEqual ''auto_scaling_min_capacity'') errs"
    by (simp add: field_or_def no_backend_kwargs_def given_matches_def) blast
  from 1 2 3 show ?thesis by (intro conjI)
qed

text \<open>
  The stronger statement, that every failure with \<open>mn \<ge> mx\<close> carries a message with both
  compared values, does not hold. With minimum 0 and maximum -5 the only error is the bound on the
  minimum, and with minimum 7, maximum 3 and the certificate ARN \<open>x\<close> the only error is the
  pattern mismatch: neither carries the validator's message.
\<close>

theorem BackendConfig_message_counterexample:
  "(0 :: int) \<ge> - 5
   \<and> BackendConfig_init
      (no_backend_kwargs\<lparr>kw_auto_scaling_min_capacity := Some 0, kw_auto_scaling_max_capacity := Some (- 5)\<rparr>)
     = Inl (ValidationError ''BackendConfig'' [GreaterThanEqual ''auto_scaling_min_capacity''])
   \<and> (7 :: int) \<ge> 3
   \<and> BackendConfig_init
      (no_backend_kwargs\<lparr>BackendConfig_kwargs.kw_certificate_arn := Some ''x'',
         kw_auto_scaling_min_capacity := Some 7, kw_auto_scaling_max_capacity := Some 3\<rparr>)
     = Inl (ValidationError ''BackendConfig'' [StringPatternMismatch ''certificate_arn''])"
proof -
  have "\<not> matches acm_certificate_pattern ''x''" by code_simp
  then show ?thesis
    by (simp add: BackendConfig_init_def no_backend_kwargs_def ge_int_field_def pattern_field_def
        errors_of_def)
qed

text \<open>
  C3. Take an environment file that opens, parses to a mapping whose eight sections are
  mappings with string keys, each accepted by its sub-configuration's constructor, and an
  environment name of the enumeration. Then \<open>create_config\<close> returns an aggregate that
  carries the loader's two names, the account and region of the file, and in every other
  sub-configuration each field equal to the file's value when the section has the key and to
  the schema default otherwise. The substitution is per field: a given
  \<open>container_env_vars\<close> replaces the default mapping as a whole.
\<close>

theorem create_config_fields:
  assumes loaded: "os_open w (config_path self) = Inr content" "safe_load content = Inr (Dict env)"
    and name: "EnvironmentName_of (ConfigLoader.env_name self) = Some e"
    and s_aws: "sec_aws env = Mapping k_aws" "AwsConfig_init k_aws = Inr c_aws"
    and s_vpc: "sec_vpc env = Mapping k_vpc"
    and s_database: "sec_database env = Mapping k_database" "DatabaseConfig_init k_database = Inr c_database"
    and s_backend: "sec_backend env = Mapping k_backend" "BackendConfig_init k_backend = Inr c_backend"
    and s_frontend: "sec_frontend env = Mapping k_frontend" "FrontendConfig_init k_frontend = Inr c_frontend"
    and s_cicd_fronend: "sec_cicd_fronend env = Mapping k_cicd_fronend"
      "CICDFronendConfig_init k_cicd_fronend = Inr c_cicd_fronend"
    and s_cicd_backend: "sec_cicd_backend env = Mapping k_cicd_backend"
      "CICDBackendConfig_init k_cicd_backend = Inr c_cicd_backend"
    and s_dns: "sec_dns env = Mapping k_dns"
  shows "\<exists>cfg. fst (create_config safe_load self w) = Inr cfg
     \<and> EnvironmentName_value (BaseConfig.env_name cfg) = ConfigLoader.env_name self
     \<and> BaseConfig.project_name cfg = ConfigLoader.project_name self
     \<and> kw_account k_aws = Some (account (aws cfg))
     \<and> kw_region k_aws = Some (AwsRegion_value (region (aws cfg)))
     \<and> vpc cfg =
         \<lparr>cidr = field_or ''10.0.0.0/16'' (kw_cidr k_vpc),
          max_azs = field_or 3 (kw_max_azs k_vpc),
          reserved_azs = field_or 3 (kw_reserved_azs k_vpc),
          nat_gateways = field_or 1 (kw_nat_gateways k_vpc),
          automatic_subnet_creation = field_or True (kw_automatic_subnet_creation k_vpc)\<rparr>
     \<and> database cfg =
         \<lparr>snapshot_identifier = field_or None (kw_snapshot_identifier k_database),
          backup_retention = field_or 2 (kw_backup_retention k_database),
          instance_reader = field_or False (kw_instance_reader k_database),
          serverless_v2_min_capacity = field_or (Finite (1 / 2)) (kw_serverless_v2_min_capacity k_database),
          serverless_v2_max_capacity = field_or (Finite 2) (kw_serverless_v2_max_capacity k_database),
          master_username = field_or ''postgres'' (kw_master_username k_database)\<rparr>
     \<and> backend cfg =
         \<lparr>task_cpu = field_or ''500m'' (kw_task_cpu k_backend),
          task_memory = field_or ''512Mi'' (kw_task_memory k_backend),
          desired_count = field_or 1 (kw_desired_count k_backend),
          BackendConfig.certificate_arn =
            field_or ''arn:aws:acm:eu-west-1:532673134317:certificate/905d0d16-87e8-4e89-a88c-b6053f472e81''
              (BackendConfig_kwargs.kw_certificate_arn k_backend),
          container_env_vars = field_or [] (kw_container_env_vars k_backend),
          auto_scaling_min_capacity = field_or 1 (kw_auto_scaling_min_capacity k_backend),
          auto_scaling_max_capacity = field_or 5 (kw_auto_scaling_max_capacity k_backend),
          ecr_repository_name = field_or ''services/ecs/fastapi_app'' (kw_ecr_repository_name k_backend),
          ecr_image_tag = field_or ''lastest'' (kw_ecr_image_tag k_backend)\<rparr>
     \<and> frontend cfg =
         \<lparr>domain_name = field_or ''dev-frontend.piercuta.com'' (kw_domain_name k_frontend),
          FrontendConfig.certificate_arn =
            field_or ''arn:aws:acm:us-east-1:532673134317:certificate/0755fa69-6f18-451a-8987-d98c395089b9''
              (FrontendConfig_kwargs.kw_certificate_arn k_frontend),
          certificate_provider = field_or ''acm'' (kw_certificate_provider k_frontend)\<rparr>
     \<and> cicd_fronend cfg =
         \<lparr>CICDFronendConfig.github_connection_arn =
            field_or ''arn:aws:codeconnections:eu-west-1:532673134317:connection/2a30a395-8d38-43ab-827b-f39a83c9986a''
              (CICDFronendConfig_kwargs.kw_github_connection_arn k_cicd_fronend),
          CICDFronendConfig.github_owner =
            field_or ''Piercuta'' (CICDFronendConfig_kwargs.kw_github_owner k_cicd_fronend),
          github_frontend_repo = field_or ''full-stack-fastapi-front'' (kw_github_frontend_repo k_cicd_fronend),
          github_frontend_branch = field_or ''dev'' (kw_github_frontend_branch k_cicd_fronend)\<rparr>
     \<and> cicd_backend cfg =
         \<lparr>CICDBackendConfig.github_connection_arn =
            field_or ''arn:aws:codeconnections:eu-west-1:532673134317:connection/2a30a395-8d38-43ab-827b-f39a83c9986a''
              (CICDBackendConfig_kwargs.kw_github_connection_arn k_cicd_backend),
          CICDBackendConfig.github_owner =
            field_or ''Piercuta'' (CICDBackendConfig_kwargs.kw_github_owner k_cicd_backend),
          github_backend_repo = field_or ''full-stack-fastapi-backend'' (kw_github_backend_repo k_cicd_backend),
          github_backend_branch = field_or ''dev'' (kw_github_backend_branch k_cicd_backend)\<rparr>
     \<and> dns cfg =
         \<lparr>hosted_zone_id = field_or ''Z0068506UV3AK4JBKP59'' (kw_hosted_zone_id k_dns),
          zone_name = field_or ''piercuta.com'' (kw_zone_name k_dns),
          frontend_domain_name = field_or ''dev-frontend.piercuta.com'' (kw_frontend_domain_name k_dns),
          backend_domain_name = field_or ''dev-backend.piercuta.com'' (kw_backend_domain_name k_dns)\<rparr>"
proof -
  let ?c_vpc = "\<lparr>cidr = field_or ''10.0.0.0/16'' (kw_cidr k_vpc),
          max_azs = field_or 3 (kw_max_azs k_vpc),
          reserved_azs = field_or 3 (kw_reserved_azs k_vpc),
          nat_gateways = field_or 1 (kw_nat_gateways k_vpc),
          automatic_subnet_creation = field_or True (kw_automatic_subnet_creation k_vpc)\<rparr>"
  let ?c_dns = "\<lparr>hosted_zone_id = field_or ''Z0068506UV3AK4JBKP59'' (kw_hosted_zone_id k_dns),
          zone_name = field_or ''piercuta.com'' (kw_zone_name k_dns),
          frontend_domain_name = field_or ''dev-frontend.piercuta.com'' (kw_frontend_domain_name k_dns),
          backend_domain_name = field_or ''dev-backend.piercuta.com'' (kw_backend_domain_name k_dns)\<rparr>"
  let ?cfg = "\<lparr>BaseConfig.env_name = e, BaseConfig.project_name = ConfigLoader.project_name self,
      aws = c_aws, vpc = ?c_vpc, database = c_database, backend = c_backend, frontend = c_frontend,
      cicd_fronend = c_cicd_fronend, cicd_backend = c_cicd_backend, dns = ?c_dns\<rparr>"
  have "fst (create_config safe_load self w) = build_config self (Dict env)"
    using loaded by (simp add: create_config_run and_then_Inr)
  also have "\<dots> = Inr ?cfg"
    by (simp add: build_config_def construct_Mapping and_then_Inr InfrastructureConfig_init_def
        VpcConfig_init_def DnsConfig_init_def name s_aws s_vpc s_database s_backend s_frontend
        s_cicd_fronend s_cicd_backend s_dns)
  finally have r: "fst (create_config safe_load self w) = Inr ?cfg" .
  have n: "EnvironmentName_value e = ConfigLoader.env_name self"
    using name by (rule EnvironmentName_of_value)
  note f = AwsConfig_init_fields [OF s_aws(2)] DatabaseConfig_init_fields [OF s_database(2)]
    BackendConfig_init_fields [OF s_backend(2)] FrontendConfig_init_fields [OF s_frontend(2)]
    CICDFronendConfig_init_fields [OF s_cicd_fronend(2)] CICDBackendConfig_init_fields [OF s_cicd_backend(2)]
  show ?thesis
    apply (rule exI [of _ ?cfg])
    apply (simp only: r)
    using n f apply simp
    done
qed

theorem create_config_fields_witness:
  "\<exists>cfg. fst (create_config example_safe_load example_loader example_world) = Inr cfg
     \<and> BaseConfig.env_name cfg = DEV \<and> BaseConfig.project_name cfg = ''acme''
     \<and> account (aws cfg) = ''123456789012'' \<and> region (aws cfg) = EU_WEST_1
     \<and> cidr (vpc cfg) = ''10.0.0.0/16'' \<and> max_azs (vpc cfg) = 2 \<and> reserved_azs (vpc cfg) = 3
     \<and> automatic_subnet_creation (vpc cfg) = False
     \<and> backup_retention (database cfg) = 7
     \<and> serverless_v2_min_capacity (database cfg) = Finite 1
     \<and> serverless_v2_max_capacity (database cfg) = Finite 4
     \<and> master_username (database cfg) = ''postgres''
     \<and> desired_count (backend cfg) = 2 \<and> task_cpu (backend cfg) = ''500m''
     \<and> container_env_vars (backend cfg) = [(''LOG_LEVEL'', ''debug'')]
     \<and> domain_name (frontend cfg) = ''dev-app.example.com''
     \<and> github_frontend_branch (cicd_fronend cfg) = ''main''
     \<and> github_backend_branch (cicd_backend cfg) = ''dev''
     \<and> zone_name (dns cfg) = ''example.com'' \<and> hosted_zone_id (dns cfg) = ''Z0068506UV3AK4JBKP59''"
proof -
  let ?k_aws = "\<lparr>kw_account = Some ''123456789012'', kw_region = Some ''eu-west-1''\<rparr>"
  let ?k_vpc = "\<lparr>kw_cidr = None, kw_max_azs = Some 2, kw_reserved_azs = None,
                 kw_nat_gateways = None, kw_automatic_subnet_creation = Some False\<rparr>"
  let ?k_database = "\<lparr>kw_snapshot_identifier = None, kw_backup_retention = Some 7,
                      kw_instance_reader = None,
                      kw_serverless_v2_min_capacity = Some (Finite 1),
                      kw_serverless_v2_max_capacity = Some (Finite 4),
                      kw_master_username = None\<rparr>"
  let ?k_backend = "no_backend_kwargs\<lparr>kw_desired_count := Some 2,
                      kw_container_env_vars := Some [(''LOG_LEVEL'', ''debug'')]\<rparr>"
  let ?k_frontend = "no_frontend_kwargs\<lparr>kw_domain_name := Some ''dev-app.example.com''\<rparr>"
  let ?k_cicd_fronend = "no_cicd_fronend_kwargs\<lparr>kw_github_frontend_branch := Some ''main''\<rparr>"
  let ?k_dns = "\<lparr>kw_hosted_zone_id = None, kw_zone_name = Some ''example.com'',
                 kw_frontend_domain_name = None, kw_backend_domain_name = None\<rparr>"
  have loaded: "os_open example_world (config_path example_loader) = Inr ''dev settings''"
    by (simp add: example_world_def example_os_open_def example_config_path)
  have parsed: "example_safe_load ''dev settings'' = Inr (Dict example_env)"
    by (simp add: example_safe_load_def)
  have name: "EnvironmentName_of (ConfigLoader.env_name example_loader) = Some DEV"
    by (simp add: example_loader_def EnvironmentName_of_def)
  have s_aws: "sec_aws example_env = Mapping ?k_aws"
    and s_vpc: "sec_vpc example_env = Mapping ?k_vpc"
    and s_database: "sec_database example_env = Mapping ?k_database"
    and s_backend: "sec_backend example_env = Mapping ?k_backend"
    and s_frontend: "sec_frontend example_env = Mapping ?k_frontend"
    and s_cicd_fronend: "sec_cicd_fronend example_env = Mapping ?k_cicd_fronend"
    and s_cicd_backend: "sec_cicd_backend example_env = Mapping no_cicd_backend_kwargs"
    and s_dns: "sec_dns example_env = Mapping ?k_dns"
    by (simp_all add: example_env_def)
  have i_aws: "AwsConfig_init ?k_aws = Inr \<lparr>account = ''123456789012'', region = EU_WEST_1\<rparr>"
    by (simp add: AwsConfig_init_def required_field_def region_field_def AwsRegion_of_def)
  have i_database: "DatabaseConfig_init ?k_database =
      Inr \<lparr>snapshot_identifier = None, backup_retention = 7, instance_reader = False,
           serverless_v2_min_capacity = Finite 1, serverless_v2_max_capacity = Finite 4,
           master_username = ''postgres''\<rparr>"
    by (simp add: DatabaseConfig_init_def ge_float_field_def validate_capacity_def field_or_def)
  have i_backend: "BackendConfig_init ?k_backend =
      Inr \<lparr>task_cpu = ''500m'', task_memory = ''512Mi'', desired_count = 2,
           BackendConfig.certificate_arn =
             ''arn:aws:acm:eu-west-1:532673134317:certificate/905d0d16-87e8-4e89-a88c-b6053f472e81'',
           container_env_vars = [(''LOG_LEVEL'', ''debug'')],
           auto_scaling_min_capacity = 1, auto_scaling_max_capacity = 5,
           ecr_repository_name = ''services/ecs/fastapi_app'', ecr_image_tag = ''lastest''\<rparr>"
    by (simp add: BackendConfig_init_def no_backend_kwargs_def pattern_field_def ge_int_field_def
        validate_auto_scaling_def field_or_def)
  have i_frontend: "FrontendConfig_init ?k_frontend =
      Inr \<lparr>domain_name = ''dev-app.example.com'',
           FrontendConfig.certificate_arn =
             ''arn:aws:acm:us-east-1:532673134317:certificate/0755fa69-6f18-451a-8987-d98c395089b9'',
           certificate_provider = ''acm''\<rparr>"
    by (simp add: FrontendConfig_init_def no_frontend_kwargs_def pattern_field_def field_or_def)
  have i_cicd_fronend: "CICDFronendConfig_init ?k_cicd_fronend =
      Inr \<lparr>CICDFronendConfig.github_connection_arn =
             ''arn:aws:codeconnections:eu-west-1:532673134317:connection/2a30a395-8d38-43ab-827b-f39a83c9986a'',
           CICDFronendConfig.github_owner = ''Piercuta'',
           github_frontend_repo = ''full-stack-fastapi-front'', github_frontend_branch = ''main''\<rparr>"
    by (simp add: CICDFronendConfig_init_def no_cicd_fronend_kwargs_def pattern_field_def field_or_def)
  have i_cicd_backend: "CICDBackendConfig_init no_cicd_backend_kwargs =
      Inr \<lparr>CICDBackendConfig.github_connection_arn =
             ''arn:aws:codeconnections:eu-west-1:532673134317:connection/2a30a395-8d38-43ab-827b-f39a83c9986a'',
           CICDBackendConfig.github_owner = ''Piercuta'',
           github_backend_repo = ''full-stack-fastapi-backend'', github_backend_branch = ''dev''\<rparr>"
    by (simp add: CICDBackendConfig_init_def no_cicd_backend_kwargs_def pattern_field_def field_or_def)
  from create_config_fields [where w = example_world and safe_load = example_safe_load
      and self = example_loader, OF loaded parsed name s_aws i_aws s_vpc s_database i_database
      s_backend i_backend s_frontend i_frontend s_cicd_fronend i_cicd_fronend
      s_cicd_backend i_cicd_backend s_dns]
  obtain cfg where c: "fst (create_config example_safe_load example_loader example_world) = Inr cfg"
     and n: "EnvironmentName_value (BaseConfig.env_name cfg) = ConfigLoader.env_name example_loader"
        "BaseConfig.project_name cfg = ConfigLoader.project_name example_loader"
     and a: "kw_account ?k_aws = Some (account (aws cfg))"
        "kw_region ?k_aws = Some (AwsRegion_value (region (aws cfg)))"
     and v: "cidr (vpc cfg) = ''10.0.0.0/16''" "max_azs (vpc cfg) = 2" "reserved_azs (vpc cfg) = 3"
        "automatic_subnet_creation (vpc cfg) = False"
     and d: "backup_retention (database cfg) = 7"
        "serverless_v2_min_capacity (database cfg) = Finite 1"
        "serverless_v2_max_capacity (database cfg) = Finite 4"
        "master_username (database cfg) = ''postgres''"
     and b: "desired_count (backend cfg) = 2" "task_cpu (backend cfg) = ''500m''"
        "container_env_vars (backend cfg) = [(''LOG_LEVEL'', ''debug'')]"
     and f: "domain_name (frontend cfg) = ''dev-app.example.com''"
     and cf: "github_frontend_branch (cicd_fronend cfg) = ''main''"
     and cb: "github_backend_branch (cicd_backend cfg) = ''dev''"
     and z: "zone_name (dns cfg) = ''example.com''" "hosted_zone_id (dns cfg) = ''Z0068506UV3AK4JBKP59''"
    by (auto simp: field_or_def no_backend_kwargs_def no_frontend_kwargs_def
        no_cicd_fronend_kwargs_def no_cicd_backend_kwargs_def)
  from n(1) have e: "BaseConfig.env_name cfg = DEV"
    by (cases "BaseConfig.env_name cfg") (simp_all add: example_loader_def)
  from a(2) have r: "region (aws cfg) = EU_WEST_1"
    by (cases "region (aws cfg)") simp_all
  from a(1) have ac: "account (aws cfg) = ''123456789012''" by simp
  from n(2) have pn: "BaseConfig.project_name cfg = ''acme''" by (simp add: example_loader_def)
  from c e pn ac r v d b f cf cb z show ?thesis by blast
qed

text \<open>
  C4. Two runs of \<open>create_config\<close> with the same loader (environment name, project name,
  base path) and the same parser, in two worlds that agree on what opening the environment
  file's path gives and may differ in everything else, return equal results, errors
  included. Each run performs exactly one input or output operation, the read of that path,
  and leaves what every path opens to unchanged.
\<close>

theorem create_config_deterministic:
  assumes "os_open w1 (config_path self) = os_open w2 (config_path self)"
  shows "fst (create_config safe_load self w1) = fst (create_config safe_load self w2)
    \<and> snd (create_config safe_load self w1) = w1\<lparr>events := events w1 @ [OpenRead (config_path self)]\<rparr>
    \<and> snd (create_config safe_load self w2) = w2\<lparr>events := events w2 @ [OpenRead (config_path self)]\<rparr>
    \<and> os_open (snd (create_config safe_load self w1)) = os_open w1
    \<and> os_open (snd (create_config safe_load self w2)) = os_open w2"
  using assms by (simp add: create_config_run)

theorem create_config_deterministic_witness:
  "os_open example_world (config_path example_loader) = os_open other_world (config_path example_loader)
   \<and> os_open example_world ''/app/config/secrets/dev.json'' \<noteq> os_open other_world ''/app/config/secrets/dev.json''
   \<and> fst (create_config example_safe_load example_loader example_world)
       = fst (create_config example_safe_load example_loader other_world)
   \<and> events (snd (create_config example_safe_load example_loader example_world))
       = [OpenRead ''/app/config/environments/dev.yaml'']
   \<and> events (snd (create_config example_safe_load example_loader other_world))
       = [OpenRead ''/app/cdk.json'', OpenRead ''/app/config/environments/dev.yaml'']"
proof -
  have h: "os_open example_world (config_path example_loader) = os_open other_world (config_path example_loader)"
    by (simp add: example_world_def other_world_def example_config_path)
  have d: "os_open example_world ''/app/config/secrets/dev.json'' \<noteq> os_open other_world ''/app/config/secrets/dev.json''"
    by (simp add: example_world_def other_world_def example_os_open_def basename_def)
  from create_config_deterministic [where ?w1.0 = example_world and ?w2.0 = other_world
      and self = example_loader and safe_load = example_safe_load, OF h] h d
  show ?thesis
    by (simp add: example_world_def other_world_def example_config_path)
qed

text \<open>
  C5. For each of the four ARN fields, construction of the owning class with a string \<open>s\<close>
  supplied for the field fails with a validation error naming the field when \<open>s\<close> does not
  match the field's pattern, and succeeds with the field equal to \<open>s\<close> when it does. For
  \<open>BackendConfig\<close>, the one class with further constraints, a matching string is never the
  cause of a failure, and construction succeeds when the auto-scaling bounds are valid too.
\<close>

theorem arn_fields_validated:
  fixes bk :: BackendConfig_kwargs and fk :: FrontendConfig_kwargs
    and cf :: CICDFronendConfig_kwargs and cb :: CICDBackendConfig_kwargs
  shows
  "(\<not> matches acm_certificate_pattern s \<longrightarrow>
      (\<exists>errs. BackendConfig_init (bk\<lparr>BackendConfig_kwargs.kw_certificate_arn := Some s\<rparr>)
                = Inl (ValidationError ''BackendConfig'' errs)
              \<and> StringPatternMismatch ''certificate_arn'' \<in> set errs))
   \<and> (matches acm_certificate_pattern s
        \<and> 1 \<le> field_or 1 (kw_auto_scaling_min_capacity bk)
        \<and> field_or 1 (kw_auto_scaling_min_capacity bk) < field_or 5 (kw_auto_scaling_max_capacity bk) \<longrightarrow>
      (\<exists>c. BackendConfig_init (bk\<lparr>BackendConfig_kwargs.kw_certificate_arn := Some s\<rparr>) = Inr c
          \<and> BackendConfig.certificate_arn c = s))
   \<and> (matches acm_certificate_pattern s \<longrightarrow>
      (\<forall>errs. BackendConfig_init (bk\<lparr>BackendConfig_kwargs.kw_certificate_arn := Some s\<rparr>)
                = Inl (ValidationError ''BackendConfig'' errs)
              \<longrightarrow> StringPatternMismatch ''certificate_arn'' \<notin> set errs))
   \<and> (\<not> matches acm_certificate_pattern s \<longrightarrow>
      FrontendConfig_init (fk\<lparr>FrontendConfig_kwargs.kw_certificate_arn := Some s\<rparr>)
        = Inl (ValidationError ''FrontendConfig'' [StringPatternMismatch ''certificate_arn'']))
   \<and> (matches acm_certificate_pattern s \<longrightarrow>
      (\<exists>c. FrontendConfig_init (fk\<lparr>FrontendConfig_kwargs.kw_certificate_arn := Some s\<rparr>) = Inr c
          \<and> FrontendConfig.certificate_arn c = s))
   \<and> (\<not> matches codeconnections_pattern s \<longrightarrow>
      CICDFronendConfig_init (cf\<lparr>CICDFronendConfig_kwargs.kw_github_connection_arn := Some s\<rparr>)
        = Inl (ValidationError ''CICDFronendConfig'' [StringPatternMismatch ''github_connection_arn'']))
   \<and> (matches codeconnections_pattern s \<longrightarrow>
      (\<exists>c. CICDFronendConfig_init (cf\<lparr>CICDFronendConfig_kwargs.kw_github_connection_arn := Some s\<rparr>) = Inr c
          \<and> CICDFronendConfig.github_connection_arn c = s))
   \<and> (\<not> matches codeconnections_pattern s \<longrightarrow>
      CICDBackendConfig_init (cb\<lparr>CICDBackendConfig_kwargs.kw_github_connection_arn := Some s\<rparr>)
        = Inl (ValidationError ''CICDBackendConfig'' [StringPatternMismatch ''github_connection_arn'']))
   \<and> (matches codeconnections_pattern s \<longrightarrow>
      (\<exists>c. CICDBackendConfig_init (cb\<lparr>CICDBackendConfig_kwargs.kw_github_connection_arn := Some s\<rparr>) = Inr c
          \<and> CICDBackendConfig.github_connection_arn c = s))"
proof (intro conjI impI)
  assume "\<not> matches acm_certificate_pattern s"
  then show "\<exists>errs. BackendConfig_init (bk\<lparr>BackendConfig_kwargs.kw_certificate_arn := Some s\<rparr>)
                = Inl (ValidationError ''BackendConfig'' errs)
              \<and> StringPatternMismatch ''certificate_arn'' \<in> set errs"
    by (simp add: BackendConfig_init_def pattern_field_given min_scaling_field errors_of_def)
next
  assume "matches acm_certificate_pattern s
        \<and> 1 \<le> field_or 1 (kw_auto_scaling_min_capacity bk)
        \<and> field_or 1 (kw_auto_scaling_min_capacity bk) < field_or 5 (kw_auto_scaling_max_capacity bk)"
  then show "\<exists>c. BackendConfig_init (bk\<lparr>BackendConfig_kwargs.kw_certificate_arn := Some s\<rparr>) = Inr c
          \<and> BackendConfig.certificate_arn c = s"
    by (simp add: BackendConfig_init_def pattern_field_given min_scaling_field validate_auto_scaling_def)
next
  assume "matches acm_certificate_pattern s"
  then show "\<forall>errs. BackendConfig_init (bk\<lparr>BackendConfig_kwargs.kw_certificate_arn := Some s\<rparr>)
                = Inl (ValidationError ''BackendConfig'' errs)
              \<longrightarrow> StringPatternMismatch ''certificate_arn'' \<notin> set errs"
    by (auto simp: BackendConfig_init_def pattern_field_given min_scaling_field validate_auto_scaling_def
        errors_of_def split: if_splits)
qed (simp_all add: FrontendConfig_init_def CICDFronendConfig_init_def CICDBackendConfig_init_def
      pattern_field_given)

theorem arn_fields_validated_witness:
  "(\<exists>c. BackendConfig_init (no_backend_kwargs\<lparr>BackendConfig_kwargs.kw_certificate_arn :=
           Some ''arn:aws:acm:eu-west-1:123456789012:certificate/ab-12''\<rparr>) = Inr c
        \<and> BackendConfig.certificate_arn c = ''arn:aws:acm:eu-west-1:123456789012:certificate/ab-12'')
   \<and> (\<exists>errs. BackendConfig_init (no_backend_kwargs\<lparr>BackendConfig_kwargs.kw_certificate_arn :=
           Some ''arn:aws:acm:eu-west-1:12345:certificate/ab-12''\<rparr>)
          = Inl (ValidationError ''BackendConfig'' errs))
   \<and> (\<exists>c. FrontendConfig_init (no_frontend_kwargs\<lparr>FrontendConfig_kwargs.kw_certificate_arn :=
           Some ''arn:aws:acm:eu-west-1:123456789012:certificate/ab-12''\<rparr>) = Inr c)
   \<and> FrontendConfig_init (no_frontend_kwargs\<lparr>FrontendConfig_kwargs.kw_certificate_arn :=
           Some ''arn:aws:acm:eu-west-1:12345:certificate/ab-12''\<rparr>)
        = Inl (ValidationError ''FrontendConfig'' [StringPatternMismatch ''certificate_arn''])
   \<and> (\<exists>c. CICDFronendConfig_init (no_cicd_fronend_kwargs\<lparr>CICDFronendConfig_kwargs.kw_github_connection_arn :=
           Some ''arn:aws:codeconnections:eu-west-1:123456789012:connection/2a30-Z''\<rparr>) = Inr c)
   \<and> CICDFronendConfig_init (no_cicd_fronend_kwargs\<lparr>CICDFronendConfig_kwargs.kw_github_connection_arn :=
           Some ''arn:aws:acm:eu-west-1:123456789012:certificate/ab-12''\<rparr>)
        = Inl (ValidationError ''CICDFronendConfig'' [StringPatternMismatch ''github_connection_arn''])
   \<and> (\<exists>c. CICDBackendConfig_init (no_cicd_backend_kwargs\<lparr>CICDBackendConfig_kwargs.kw_github_connection_arn :=
           Some ''arn:aws:codeconnections:eu-west-1:123456789012:connection/2a30-Z''\<rparr>) = Inr c)
   \<and> CICDBackendConfig_init (no_cicd_backend_kwargs\<lparr>CICDBackendConfig_kwargs.kw_github_connection_arn :=
           Some ''arn:aws:acm:eu-west-1:123456789012:certificate/ab-12''\<rparr>)
        = Inl (ValidationError ''CICDBackendConfig'' [StringPatternMismatch ''github_connection_arn''])"
proof -
  note ok = arn_fields_validated [of "''arn:aws:acm:eu-west-1:123456789012:certificate/ab-12''"
      no_backend_kwargs no_frontend_kwargs no_cicd_fronend_kwargs no_cicd_backend_kwargs]
  note bad = arn_fields_validated [of "''arn:aws:acm:eu-west-1:12345:certificate/ab-12''"
      no_backend_kwargs no_frontend_kwargs no_cicd_fronend_kwargs no_cicd_backend_kwargs]
  note cc = arn_fields_validated [of "''arn:aws:codeconnections:eu-west-1:123456789012:connection/2a30-Z''"
      no_backend_kwargs no_frontend_kwargs no_cicd_fronend_kwargs no_cicd_backend_kwargs]
  have mn: "field_or 1 (kw_auto_scaling_min_capacity no_backend_kwargs) = (1 :: int)"
       "field_or 5 (kw_auto_scaling_max_capacity no_backend_kwargs) = (5 :: int)"
    by (simp_all add: no_backend_kwargs_def field_or_def)
  from ok acm_example mn have 1: "\<exists>c. BackendConfig_init (no_backend_kwargs\<lparr>BackendConfig_kwargs.kw_certificate_arn :=
           Some ''arn:aws:acm:eu-west-1:123456789012:certificate/ab-12''\<rparr>) = Inr c
        \<and> BackendConfig.certificate_arn c = ''arn:aws:acm:eu-west-1:123456789012:certificate/ab-12''"
    by simp
  from bad acm_mismatch have 2: "\<exists>errs. BackendConfig_init (no_backend_kwargs\<lparr>BackendConfig_kwargs.kw_certificate_arn :=
           Some ''arn:aws:acm:eu-west-1:12345:certificate/ab-12''\<rparr>)
          = Inl (ValidationError ''BackendConfig'' errs)"
    by blast
  from ok acm_example have 3: "\<exists>c. FrontendConfig_init (no_frontend_kwargs\<lparr>FrontendConfig_kwargs.kw_certificate_arn :=
           Some ''arn:aws:acm:eu-west-1:123456789012:certificate/ab-12''\<rparr>) = Inr c"
    by blast
  from bad acm_mismatch have 4: "FrontendConfig_init (no_frontend_kwargs\<lparr>FrontendConfig_kwargs.kw_certificate_arn :=
           Some ''arn:aws:acm:eu-west-1:12345:certificate/ab-12''\<rparr>)
        = Inl (ValidationError ''FrontendConfig'' [StringPatternMismatch ''certificate_arn''])"
    by blast
  from cc codeconnections_example have 5: "\<exists>c. CICDFronendConfig_init (no_cicd_fronend_kwargs\<lparr>CICDFronendConfig_kwargs.kw_github_connection_arn :=
           Some ''arn:aws:codeconnections:eu-west-1:123456789012:connection/2a30-Z''\<rparr>) = Inr c"
    by blast
  from ok codeconnections_mismatch have 6: "CICDFronendConfig_init (no_cicd_fronend_kwargs\<lparr>CICDFronendConfig_kwargs.kw_github_connection_arn :=
           Some ''arn:aws:acm:eu-west-1:123456789012:certificate/ab-12''\<rparr>)
        = Inl (ValidationError ''CICDFronendConfig'' [StringPatternMismatch ''github_connection_arn''])"
    by blast
  from cc codeconnections_example have 7: "\<exists>c. CICDBackendConfig_init (no_cicd_backend_kwargs\<lparr>CICDBackendConfig_kwargs.kw_github_connection_arn :=
           Some ''arn:aws:codeconnections:eu-west-1:123456789012:connection/2a30-Z''\<rparr>) = Inr c"
    by blast
  from ok codeconnections_mismatch have 8: "CICDBackendConfig_init (no_cicd_backend_kwargs\<lparr>CICDBackendConfig_kwargs.kw_github_connection_arn :=
           Some ''arn:aws:acm:eu-west-1:123456789012:certificate/ab-12''\<rparr>)
        = Inl (ValidationError ''CICDBackendConfig'' [StringPatternMismatch ''github_connection_arn''])"
    by blast
  from 1 2 3 4 5 6 7 8 show ?thesis by (intro conjI)
qed

text \<open>
  C6. When opening the environment file's path raises an error, \<open>create_config\<close>
  fails with that very error, whatever the parser, having done nothing but the attempt to
  read: no sub-configuration and no aggregate is built. The error is the file-not-found
  error when that is what the operating system reports for the path.
\<close>

theorem create_config_open_error:
  "os_open w (config_path self) = Inl e \<Longrightarrow>
     create_config safe_load self w = (Inl e, w\<lparr>events := events w @ [OpenRead (config_path self)]\<rparr>)"
  by (simp add: create_config_run)

theorem create_config_open_error_witness:
  "os_open example_world (config_path (example_loader\<lparr>ConfigLoader.env_name := ''prod''\<rparr>))
     = Inl (FileNotFoundError ''/app/config/environments/prod.yaml'')
   \<and> create_config example_safe_load (example_loader\<lparr>ConfigLoader.env_name := ''prod''\<rparr>) example_world
     = (Inl (FileNotFoundError ''/app/config/environments/prod.yaml''),
        example_world\<lparr>events := [OpenRead ''/app/config/environments/prod.yaml'']\<rparr>)"
proof -
  have h: "os_open example_world (config_path (example_loader\<lparr>ConfigLoader.env_name := ''prod''\<rparr>))
     = Inl (FileNotFoundError ''/app/config/environments/prod.yaml'')"
    by (simp add: missing_path example_world_def example_os_open_def basename_def)
  from create_config_open_error [OF h, of example_safe_load] h show ?thesis
    by (simp add: missing_path example_world_def)
qed

text \<open>
  The stronger statement, that the error is the file-not-found error for every path that
  holds no file, does not hold. For an environment name of 300 characters no file can exist at the path, and the
  error is the operating system's error 36 (file name too long), not the file-not-found
  error.
\<close>

theorem create_config_name_too_long_counterexample:
  "os_open example_world (config_path long_name_loader) = Inl (OSError 36)
   \<and> fst (create_config example_safe_load long_name_loader example_world) = Inl (OSError 36)"
proof -
  have "length (config_path long_name_loader) \<noteq> length ''/app/config/environments/dev.yaml''"
    by (simp add: long_name_path)
  then have "config_path long_name_loader \<noteq> ''/app/config/environments/dev.yaml''"
    by (metis (no_types))
  then have "os_open example_world (config_path long_name_loader) = Inl (OSError 36)"
    by (simp add: example_world_def example_os_open_def long_name_basename)
  then show ?thesis by (simp add: create_config_run)
qed

text \<open>
  C7. Construction of \<open>VpcConfig\<close> does not relate \<open>max_azs\<close> to \<open>reserved_azs\<close>: whenever
  the maximum zone count (given or defaulted) is below the reserved zone count, construction
  succeeds and keeps both values.
\<close>

theorem VpcConfig_no_az_check:
  fixes kw :: VpcConfig_kwargs
  shows "field_or 3 (kw_max_azs kw) < field_or 3 (kw_reserved_azs kw) \<Longrightarrow>
    VpcConfig_init kw =
      Inr \<lparr>cidr = field_or ''10.0.0.0/16'' (kw_cidr kw),
           max_azs = field_or 3 (kw_max_azs kw),
           reserved_azs = field_or 3 (kw_reserved_azs kw),
           nat_gateways = field_or 1 (kw_nat_gateways kw),
           automatic_subnet_creation = field_or True (kw_automatic_subnet_creation kw)\<rparr>"
  by (simp add: VpcConfig_init_def)

theorem VpcConfig_no_az_check_witness:
  "(1 :: int) < 6 \<and>
   VpcConfig_init \<lparr>kw_cidr = None, kw_max_azs = Some 1, kw_reserved_azs = Some 6,
                   kw_nat_gateways = None, kw_automatic_subnet_creation = None\<rparr>
   = Inr \<lparr>cidr = ''10.0.0.0/16'', max_azs = 1, reserved_azs = 6, nat_gateways = 1,
          automatic_subnet_creation = True\<rparr>"
  using VpcConfig_no_az_check [of "\<lparr>kw_cidr = None, kw_max_azs = Some 1, kw_reserved_azs = Some 6,
                   kw_nat_gateways = None, kw_automatic_subnet_creation = None\<rparr>"]
  by (simp add: field_or_def)

text \<open>
  C8. For every configuration, \<open>prefix base\<close> is exactly the project name, a hyphen, the
  environment name's string value, a hyphen and \<open>base\<close>; with project \<open>acme\<close> and
  environment \<open>dev\<close>, \<open>prefix network-stack\<close> is exactly \<open>acme-dev-network-stack\<close>.
\<close>

theorem prefix_format:
  "prefix self base = BaseConfig.project_name self @ ''-'' @ EnvironmentName_value (BaseConfig.env_name self) @ ''-'' @ base
   \<and> EnvironmentName_value DEV = ''dev''
   \<and> prefix (self\<lparr>BaseConfig.project_name := ''acme'', BaseConfig.env_name := DEV\<rparr>) ''network-stack''
       = ''acme-dev-network-stack''"
  by (simp add: prefix_def env_name_str_def)

text \<open>
  C9. For every configuration, \<open>tags\<close> is exactly the three entries \<open>EnvName\<close> (the
  environment name's string value), \<open>ProjectName\<close> (the project name) and \<open>ManagedBy\<close>
  (the constant \<open>CDK\<close>), under three distinct keys; with project \<open>acme\<close> and environment
  \<open>dev\<close> the entries are \<open>dev\<close>, \<open>acme\<close> and \<open>CDK\<close>.
\<close>

theorem tags_exact:
  "tags self = [(''EnvName'', EnvironmentName_value (BaseConfig.env_name self)),
                (''ProjectName'', BaseConfig.project_name self),
                (''ManagedBy'', ''CDK'')]
   \<and> distinct (map fst (tags self)) \<and> length (tags self) = 3
   \<and> tags (self\<lparr>BaseConfig.project_name := ''acme'', BaseConfig.env_name := DEV\<rparr>)
       = [(''EnvName'', ''dev''), (''ProjectName'', ''acme''), (''ManagedBy'', ''CDK'')]"
  by (simp add: tags_def env_name_str_def)

text \<open>
  C10. For every \<open>BackendConfig\<close>, reading \<open>task_cpu_int\<close> or \<open>task_memory_int\<close> raises an
  attribute error, because \<open>task_cpu\<close> and \<open>task_memory\<close> are plain strings; in particular on
  the instance built from no arguments, whose values are \<open>500m\<close> and \<open>512Mi\<close>.
\<close>

theorem task_int_accessors_raise:
  "task_cpu_int self = Inl (AttributeError ''str'' ''value'')
   \<and> task_memory_int self = Inl (AttributeError ''str'' ''value'')
   \<and> (\<exists>c. BackendConfig_init no_backend_kwargs = Inr c
        \<and> task_cpu c = ''500m'' \<and> task_memory c = ''512Mi''
        \<and> task_cpu_int c = Inl (AttributeError ''str'' ''value'')
        \<and> task_memory_int c = Inl (AttributeError ''str'' ''value''))"
  by (simp add: task_cpu_int_def task_memory_int_def BackendConfig_init_def no_backend_kwargs_def
      pattern_field_def ge_int_field_def validate_auto_scaling_def field_or_def)

end
